theory Spec2Isabelle
  imports Complex_Main
begin

section \<open>Values, documents and dictionaries\<close>

text \<open>
  Request bodies, stored documents and responses of the service are JSON-like Python
  dictionaries. A value is one of the shapes that occur in them. A number (\<open>PyNum\<close>)
  is an \<open>int\<close> or a finite \<open>float\<close>, given by the exact value it denotes; the
  arithmetic that the handlers do on floats, with its rounding and its overflow, is in
  the section on floating-point numbers below. A \<open>datetime\<close> is a point on a discrete
  clock, and a store identifier (bson's 12-byte \<open>ObjectId\<close>) is the number it denotes.
\<close>

datatype pyval =
    PyNone
  | PyBool bool
  | PyNum real
  | PyStr string
  | PyDate nat
  | PyOid nat
  | PyList "pyval list"
  | PyDict "(string \<times> pyval) list"

type_synonym doc = "(string \<times> pyval) list"

text \<open>\<open>d.get(k)\<close> and \<open>d.get(k, default)\<close>.\<close>

definition dict_get :: "doc \<Rightarrow> string \<Rightarrow> pyval" where
  "dict_get d k = (case map_of d k of None \<Rightarrow> PyNone | Some v \<Rightarrow> v)"

definition dict_get_or :: "doc \<Rightarrow> string \<Rightarrow> pyval \<Rightarrow> pyval" where
  "dict_get_or d k dflt = (case map_of d k of None \<Rightarrow> dflt | Some v \<Rightarrow> v)"

text \<open>\<open>d[k] = v\<close>: an existing key keeps its position, a new key goes last.\<close>

fun dict_set :: "string \<Rightarrow> pyval \<Rightarrow> doc \<Rightarrow> doc" where
  "dict_set k v [] = [(k, v)]"
| "dict_set k v ((k', v') # d) =
     (if k' = k then (k, v) # d else (k', v') # dict_set k v d)"

fun dict_del :: "string \<Rightarrow> doc \<Rightarrow> doc" where
  "dict_del k [] = []"
| "dict_del k ((k', v') # d) = (if k' = k then dict_del k d else (k', v') # dict_del k d)"

text \<open>Python truthiness, as used by \<open>not u\<close> and by \<open>a or b\<close>.\<close>

fun truthy :: "pyval \<Rightarrow> bool" where
  "truthy PyNone = False"
| "truthy (PyBool b) = b"
| "truthy (PyNum x) = (x \<noteq> 0)"
| "truthy (PyStr s) = (s \<noteq> [])"
| "truthy (PyDate t) = True"
| "truthy (PyOid n) = True"
| "truthy (PyList vs) = (vs \<noteq> [])"
| "truthy (PyDict kvs) = (kvs \<noteq> [])"

definition py_or :: "pyval \<Rightarrow> pyval \<Rightarrow> pyval" where
  "py_or a b = (if truthy a then a else b)"

definition opt_str :: "string option \<Rightarrow> pyval" where
  "opt_str x = (case x of None \<Rightarrow> PyNone | Some s \<Rightarrow> PyStr s)"

definition opt_num :: "real option \<Rightarrow> pyval" where
  "opt_num x = (case x of None \<Rightarrow> PyNone | Some r \<Rightarrow> PyNum r)"

definition opt_date :: "nat option \<Rightarrow> pyval" where
  "opt_date x = (case x of None \<Rightarrow> PyNone | Some t \<Rightarrow> PyDate t)"

definition opt_strs :: "string list option \<Rightarrow> pyval" where
  "opt_strs x = (case x of None \<Rightarrow> PyNone | Some xs \<Rightarrow> PyList (map PyStr xs))"

section \<open>Failures\<close>

text \<open>
  A request ends in a response or in a raised exception. \<open>HTTPException\<close> is the one
  the handlers raise on purpose, with its status code and detail text. Any other
  exception (pydantic's \<open>ValidationError\<close> raised inside a handler, bson's
  \<open>InvalidId\<close>, \<open>TypeError\<close>, \<open>KeyError\<close>, \<open>AttributeError\<close>, \<open>OverflowError\<close>, and
  the \<open>ValueError\<close> of the JSON encoder) is not caught anywhere in the service, and the
  web framework answers an uncaught exception with status 500. \<open>Unmodelled\<close> marks the
  few library behaviours this development does not describe (such as \<open>float\<close> of a
  string); the documents that the handlers write never reach them.
\<close>

datatype failure =
    HTTPException nat string
  | Uncaught string
  | Unmodelled string

fun status_code :: "failure \<Rightarrow> nat" where
  "status_code (HTTPException c d) = c"
| "status_code (Uncaught e) = 500"
| "status_code (Unmodelled e) = 500"

definition is_client_error :: "failure + 'a \<Rightarrow> bool" where
  "is_client_error r =
     (case r of Inl f \<Rightarrow> 400 \<le> status_code f \<and> status_code f < 500 | Inr x \<Rightarrow> False)"

definition is_server_fault :: "failure + 'a \<Rightarrow> bool" where
  "is_server_fault r =
     (case r of Inl f \<Rightarrow> 500 \<le> status_code f | Inr x \<Rightarrow> False)"

section \<open>Floating-point numbers\<close>

text \<open>
  A Python \<open>float\<close> is an IEEE 754 binary64 number: a finite one, which is an integer
  multiple \<open>m * 2 ^ q\<close> with \<open>\<bar>m\<bar> < 2 ^ 53\<close> and \<open>- 1074 \<le> q \<le> 971\<close>, one of the two
  infinities, or \<open>nan\<close>. A finite float is given by its exact value. The sign of a zero
  is not kept: the totals below start from \<open>0.0\<close>, and neither a sum that starts from
  \<open>0.0\<close> nor a difference of two such sums is ever \<open>-0.0\<close>.
\<close>

datatype pyfloat = FNum real | FPosInf | FNegInf | FNaN

text \<open>\<open>n.bit_length()\<close> of a positive integer: the number of its binary digits.\<close>

function bit_length :: "int \<Rightarrow> nat" where
  "bit_length n = (if n \<le> 0 then 0 else Suc (bit_length (n div 2)))"
  by pat_completeness auto

termination bit_length
  by (relation "measure nat") auto

declare bit_length.simps [simp del]

text \<open>The binary exponent of a positive real: \<open>2 ^ ilog2 x \<le> x < 2 ^ (ilog2 x + 1)\<close>.\<close>

definition ilog2 :: "real \<Rightarrow> int" where
  "ilog2 x =
     (if 1 \<le> x then int (bit_length \<lfloor>x\<rfloor>) - 1
      else - int (bit_length (\<lceil>1 / x\<rceil> - 1)))"

definition pow2 :: "int \<Rightarrow> real" where
  "pow2 e = (if 0 \<le> e then 2 ^ nat e else 1 / 2 ^ nat (- e))"

text \<open>Rounding to the nearest integer, a tie going to the even one.\<close>

definition round_half_even :: "real \<Rightarrow> int" where
  "round_half_even x =
     (let f = \<lfloor>x\<rfloor>; d = x - of_int f in
      if d < 1 / 2 then f else if 1 / 2 < d then f + 1 else if even f then f else f + 1)"

text \<open>
  The float nearest to a real number (round to nearest, ties to even, the rounding of
  every float operation of Python). The spacing of the floats around \<open>x\<close> is \<open>2 ^ q\<close> with
  \<open>q = ilog2 \<bar>x\<bar> - 52\<close>, and \<open>2 ^ - 1074\<close> in the subnormal range; a result that reaches
  \<open>2 ^ 1024\<close> in magnitude is an infinity.
\<close>

definition round64 :: "real \<Rightarrow> pyfloat" where
  "round64 x =
     (if x = 0 then FNum 0
      else let q = max (ilog2 \<bar>x\<bar> - 52) (- 1074);
               y = of_int (round_half_even (x / pow2 q)) * pow2 q
           in if 2 ^ 1024 \<le> y then FPosInf
              else if y \<le> - (2 ^ 1024) then FNegInf
              else FNum y)"

text \<open>\<open>x + y\<close>, \<open>- x\<close> and \<open>x - y\<close> on floats.\<close>

fun float_add :: "pyfloat \<Rightarrow> pyfloat \<Rightarrow> pyfloat" where
  "float_add (FNum a) (FNum b) = round64 (a + b)"
| "float_add FNaN y = FNaN"
| "float_add x FNaN = FNaN"
| "float_add FPosInf FNegInf = FNaN"
| "float_add FNegInf FPosInf = FNaN"
| "float_add FPosInf y = FPosInf"
| "float_add FNegInf y = FNegInf"
| "float_add (FNum a) y = y"

fun float_neg :: "pyfloat \<Rightarrow> pyfloat" where
  "float_neg (FNum a) = FNum (- a)"
| "float_neg FPosInf = FNegInf"
| "float_neg FNegInf = FPosInf"
| "float_neg FNaN = FNaN"

definition float_sub :: "pyfloat \<Rightarrow> pyfloat \<Rightarrow> pyfloat" where
  "float_sub x y = float_add x (float_neg y)"

text \<open>
  A handler's return value is rendered by the framework's \<open>JSONResponse\<close>, that is by
  \<open>json.dumps(..., allow_nan=False)\<close>, which raises \<open>ValueError\<close> on an infinity or a
  \<open>nan\<close>. \<open>json_floats\<close> renders a dictionary whose values are floats.
\<close>

fun json_floats :: "(string \<times> pyfloat) list \<Rightarrow> failure + doc" where
  "json_floats [] = Inr []"
| "json_floats ((k, FNum x) # kvs) =
     (case json_floats kvs of Inl e \<Rightarrow> Inl e | Inr d \<Rightarrow> Inr ((k, PyNum x) # d))"
| "json_floats ((k, v) # kvs) = Inl (Uncaught ''ValueError'')"

section \<open>Store identifiers\<close>

text \<open>
  \<open>str(ObjectId)\<close> is 24 lower-case hexadecimal digits; \<open>ObjectId(s)\<close> accepts a
  string of exactly 24 hexadecimal digits (either case) and raises otherwise.
\<close>

definition hexchars :: string where
  "hexchars = ''0123456789abcdef''"

fun hexstr :: "nat \<Rightarrow> nat \<Rightarrow> string" where
  "hexstr 0 n = []"
| "hexstr (Suc k) n = hexstr k (n div 16) @ [hexchars ! (n mod 16)]"

definition str_oid :: "nat \<Rightarrow> string" where
  "str_oid n = hexstr 24 n"

definition digit_val :: "char \<Rightarrow> nat option" where
  "digit_val c =
     (let n = (of_char c :: nat) in
      if 48 \<le> n \<and> n \<le> 57 then Some (n - 48)
      else if 97 \<le> n \<and> n \<le> 102 then Some (n - 87)
      else if 65 \<le> n \<and> n \<le> 70 then Some (n - 55)
      else None)"

fun hexval :: "nat \<Rightarrow> string \<Rightarrow> nat option" where
  "hexval acc [] = Some acc"
| "hexval acc (c # cs) =
     (case digit_val c of None \<Rightarrow> None | Some d \<Rightarrow> hexval (16 * acc + d) cs)"

definition ObjectId :: "string \<Rightarrow> nat option" where
  "ObjectId s = (if length s = 24 then hexval 0 s else None)"

text \<open>
  \<^verbatim>\<open>
  def oid(id_str: str):
      try:
          return ObjectId(id_str)
      except Exception:
          raise HTTPException(status_code=400, detail="Invalid id")
  \<close>
\<close>

definition oid :: "string \<Rightarrow> failure + nat" where
  "oid id_str =
     (case ObjectId id_str of
        None \<Rightarrow> Inl (HTTPException 400 ''Invalid id'')
      | Some x \<Rightarrow> Inr x)"

section \<open>The document store\<close>

text \<open>
  \<open>db[name]\<close> is a collection: the documents in insertion order. The store hands out
  identifiers from a counter, so that an identifier is never given twice.
\<close>

record store =
  colls :: "string \<Rightarrow> doc list"
  next_oid :: nat

definition empty_store :: store where
  "empty_store = \<lparr> colls = (\<lambda>name. []), next_oid = 0 \<rparr>"

definition collection :: "string \<Rightarrow> store \<Rightarrow> doc list" where
  "collection name s = colls s name"

text \<open>
  A filter is a dictionary of equality conditions: a document matches when it has
  every key of the filter with an equal value.
\<close>

definition matches :: "doc \<Rightarrow> doc \<Rightarrow> bool" where
  "matches flt d = list_all (\<lambda>(k, v). map_of d k = Some v) flt"

definition find_all :: "doc \<Rightarrow> doc list \<Rightarrow> doc list" where
  "find_all flt ds = filter (matches flt) ds"

fun find_one :: "doc \<Rightarrow> doc list \<Rightarrow> doc option" where
  "find_one flt [] = None"
| "find_one flt (d # ds) = (if matches flt d then Some d else find_one flt ds)"

text \<open>
  \<open>$set\<close>: each entry is a field path (a dotted name such as \<open>roles.<id>\<close> is the
  path \<open>[roles, <id>]\<close>) and the value to store there. A path through a field that
  holds something other than an embedded document is refused by the store.
\<close>

fun set_path :: "string list \<Rightarrow> pyval \<Rightarrow> doc \<Rightarrow> doc option" where
  "set_path [] v d = None"
| "set_path [k] v d = Some (dict_set k v d)"
| "set_path (k # k' # ks) v d =
     (case map_of d k of
        None \<Rightarrow> map_option (\<lambda>sub. dict_set k (PyDict sub) d) (set_path (k' # ks) v [])
      | Some (PyDict sub) \<Rightarrow>
          map_option (\<lambda>sub'. dict_set k (PyDict sub') d) (set_path (k' # ks) v sub)
      | Some _ \<Rightarrow> None)"

fun apply_set :: "(string list \<times> pyval) list \<Rightarrow> doc \<Rightarrow> doc option" where
  "apply_set [] d = Some d"
| "apply_set ((p, v) # us) d =
     (case set_path p v d of None \<Rightarrow> None | Some d' \<Rightarrow> apply_set us d')"

text \<open>
  \<open>update_one(filter, {"$set": ...})\<close> on a list of documents: the first match is
  updated in place. The result is \<open>None\<close> when the store refuses the update, else
  the matched count and the new list.
\<close>

fun update_first :: "doc \<Rightarrow> (string list \<times> pyval) list \<Rightarrow> doc list \<Rightarrow> (nat \<times> doc list) option" where
  "update_first flt us [] = Some (0, [])"
| "update_first flt us (d # ds) =
     (if matches flt d
      then map_option (\<lambda>d'. (1, d' # ds)) (apply_set us d)
      else map_option (\<lambda>(n, ds'). (n, d # ds')) (update_first flt us ds))"

text \<open>
  \<open>collection(name).update_one(filter, {"$set": fields}, upsert=...)\<close>. With
  \<open>upsert\<close> and no match, a new document is inserted: a fresh identifier, the
  filter's equality fields, then the \<open>$set\<close> applied. The matched count is 0 then.
\<close>

definition update_one ::
  "string \<Rightarrow> doc \<Rightarrow> (string list \<times> pyval) list \<Rightarrow> bool \<Rightarrow> store \<Rightarrow> (failure + nat) \<times> store" where
  "update_one name flt us upsert s =
     (case update_first flt us (colls s name) of
        None \<Rightarrow> (Inl (Uncaught ''WriteError''), s)
      | Some (n, ds') \<Rightarrow>
          if n = 0 \<and> upsert then
            (case apply_set us ((''_id'', PyOid (next_oid s)) # flt) of
               None \<Rightarrow> (Inl (Uncaught ''WriteError''), s)
             | Some d \<Rightarrow>
                 (Inr 0, s\<lparr> colls := (colls s)(name := colls s name @ [d]),
                           next_oid := Suc (next_oid s) \<rparr>))
          else (Inr n, s\<lparr> colls := (colls s)(name := ds') \<rparr>))"

text \<open>
  Modelled from the spec: \<open>create_document\<close> of the data-access helper module, which
  is not part of the sources at hand. The spec (4.2) says: it serialises the validated
  entity, injects a server-set creation timestamp, inserts the document and returns
  the new record's identifier as a string. The time of the insertion is an input.
\<close>

definition create_document :: "nat \<Rightarrow> string \<Rightarrow> doc \<Rightarrow> store \<Rightarrow> string \<times> store" where
  "create_document now name data s =
     (let i = next_oid s;
          d = (''_id'', PyOid i) # data @ [(''created_at'', PyDate now)]
      in (str_oid i, s\<lparr> colls := (colls s)(name := colls s name @ [d]),
                       next_oid := Suc i \<rparr>))"

section \<open>The data model (schemas.py)\<close>

text \<open>
  A schema class is the list of its fields: name, type, default (absent for a
  required field) and numeric bounds. Constructing an instance from keyword arguments
  checks every supplied value against the field's type and bounds and fills in the
  default of every field that is not supplied, in the order of declaration; unknown
  keywords are ignored. A keyword that is supplied is checked even when its value is
  \<open>None\<close>: the default is used only when the keyword is missing. The constructor
  is only ever called with the dump of a typed request body, so the conversions that
  pydantic would try on a value of another type are not described here: a value of
  the wrong shape is refused.
\<close>

datatype ftype =
    TStr
  | TFloat
  | TBool
  | TDatetime
  | TLiteral "string list"
  | TOptional ftype
  | TList ftype
  | TDict ftype

datatype bound = Gt real | Ge real

datatype field = Field string ftype "pyval option" "bound list"

type_synonym schema = "field list"

fun conforms :: "ftype \<Rightarrow> pyval \<Rightarrow> bool" where
  "conforms TStr v = (case v of PyStr s \<Rightarrow> True | _ \<Rightarrow> False)"
| "conforms TFloat v = (case v of PyNum x \<Rightarrow> True | _ \<Rightarrow> False)"
| "conforms TBool v = (case v of PyBool b \<Rightarrow> True | _ \<Rightarrow> False)"
| "conforms TDatetime v = (case v of PyDate t \<Rightarrow> True | _ \<Rightarrow> False)"
| "conforms (TLiteral ls) v = (case v of PyStr s \<Rightarrow> s \<in> set ls | _ \<Rightarrow> False)"
| "conforms (TOptional t) v = (v = PyNone \<or> conforms t v)"
| "conforms (TList t) v = (case v of PyList vs \<Rightarrow> list_all (conforms t) vs | _ \<Rightarrow> False)"
| "conforms (TDict t) v =
     (case v of PyDict kvs \<Rightarrow> list_all (\<lambda>kv. conforms t (snd kv)) kvs | _ \<Rightarrow> False)"

fun bound_ok :: "pyval \<Rightarrow> bound \<Rightarrow> bool" where
  "bound_ok v (Gt b) = (case v of PyNum x \<Rightarrow> b < x | _ \<Rightarrow> True)"
| "bound_ok v (Ge b) = (case v of PyNum x \<Rightarrow> b \<le> x | _ \<Rightarrow> True)"

fun validate :: "schema \<Rightarrow> doc \<Rightarrow> doc option" where
  "validate [] kw = Some []"
| "validate (Field n t dflt bs # fs) kw =
     (case map_of kw n of
        None \<Rightarrow>
          (case dflt of
             None \<Rightarrow> None
           | Some d \<Rightarrow> map_option (\<lambda>m. (n, d) # m) (validate fs kw))
      | Some v \<Rightarrow>
          if conforms t v \<and> list_all (bound_ok v) bs
          then map_option (\<lambda>m. (n, v) # m) (validate fs kw)
          else None)"

text \<open>\<open>Model(**kw)\<close>: the instance, as its field dictionary, or a \<open>ValidationError\<close>.\<close>

definition construct :: "schema \<Rightarrow> doc \<Rightarrow> failure + doc" where
  "construct sch kw =
     (case validate sch kw of
        None \<Rightarrow> Inl (Uncaught ''ValidationError'')
      | Some m \<Rightarrow> Inr m)"

definition Frequency :: ftype where
  "Frequency = TLiteral [''one_time'', ''weekly'', ''monthly'', ''yearly'']"

definition PaymentMode :: ftype where
  "PaymentMode = TLiteral [''direct'', ''online'', ''gpay'']"

definition Role :: ftype where
  "Role = TLiteral [''super_admin'', ''admin'', ''accountant'', ''member'']"

definition User :: schema where
  "User =
     [Field ''mobile'' TStr None [],
      Field ''name'' (TOptional TStr) (Some PyNone) [],
      Field ''otp'' (TOptional TStr) (Some PyNone) [],
      Field ''roles'' (TDict Role) (Some (PyDict [])) [],
      Field ''is_super_admin'' TBool (Some (PyBool False)) []]"

definition Masjid :: schema where
  "Masjid =
     [Field ''name'' TStr None [],
      Field ''address'' (TOptional TStr) (Some PyNone) [],
      Field ''created_by_user_id'' (TOptional TStr) (Some PyNone) [],
      Field ''support_whatsapp'' (TOptional TStr) (Some PyNone) []]"

definition Project :: schema where
  "Project =
     [Field ''masjid_id'' TStr None [],
      Field ''title'' TStr None [],
      Field ''description'' (TOptional TStr) (Some PyNone) [],
      Field ''is_public'' TBool (Some (PyBool True)) [],
      Field ''landing_slug'' (TOptional TStr) (Some PyNone) [],
      Field ''gpay_url'' (TOptional TStr) (Some PyNone) [],
      Field ''gpay_upi'' (TOptional TStr) (Some PyNone) [],
      Field ''gpay_qr_image'' (TOptional TStr) (Some PyNone) [],
      Field ''allowed_frequencies'' (TList Frequency)
        (Some (PyList [PyStr ''one_time'', PyStr ''weekly'', PyStr ''monthly'', PyStr ''yearly''])) []]"

definition Participant :: schema where
  "Participant =
     [Field ''project_id'' TStr None [],
      Field ''user_id'' TStr None [],
      Field ''pledge_amount'' (TOptional TFloat) (Some PyNone) [Ge 0],
      Field ''frequency'' (TOptional Frequency) (Some PyNone) [],
      Field ''preferred_mode'' (TOptional PaymentMode) (Some PyNone) []]"

definition Contribution :: schema where
  "Contribution =
     [Field ''project_id'' TStr None [],
      Field ''user_id'' (TOptional TStr) (Some PyNone) [],
      Field ''mobile'' (TOptional TStr) (Some PyNone) [],
      Field ''name'' (TOptional TStr) (Some PyNone) [],
      Field ''amount'' TFloat None [Gt 0],
      Field ''mode'' PaymentMode None [],
      Field ''paid_at'' (TOptional TDatetime) (Some PyNone) [],
      Field ''note'' (TOptional TStr) (Some PyNone) [],
      Field ''proof_url'' (TOptional TStr) (Some PyNone) [],
      Field ''approved'' TBool (Some (PyBool True)) []]"

definition Expense :: schema where
  "Expense =
     [Field ''masjid_id'' TStr None [],
      Field ''project_id'' TStr None [],
      Field ''amount'' TFloat None [Gt 0],
      Field ''description'' TStr None [],
      Field ''spent_at'' (TOptional TDatetime) (Some PyNone) [],
      Field ''added_by_user_id'' (TOptional TStr) (Some PyNone) [],
      Field ''attachment_url'' (TOptional TStr) (Some PyNone) []]"

section \<open>Request bodies (main.py)\<close>

text \<open>
  Each request class is a record of its typed fields; the framework has already
  parsed the JSON body into it (a body of the wrong shape never reaches the handler).
  An optional field that the request omits is \<open>None\<close>. \<open>model_dump()\<close> lists every
  field, also those that are \<open>None\<close>.
\<close>

record LoginRequest =
  login_mobile :: string
  login_otp :: string

record UpdateOtpRequest =
  new_otp :: string

record CreateMasjid =
  cm_name :: string
  cm_address :: "string option"
  cm_support_whatsapp :: "string option"
  cm_owner_user_id :: string

record CreateProject =
  cp_masjid_id :: string
  cp_title :: string
  cp_description :: "string option"
  cp_is_public :: bool
  cp_landing_slug :: "string option"
  cp_gpay_url :: "string option"
  cp_gpay_upi :: "string option"
  cp_gpay_qr_image :: "string option"
  cp_allowed_frequencies :: "string list option"

record JoinProject =
  jp_project_id :: string
  jp_user_id :: string
  jp_pledge_amount :: "real option"
  jp_frequency :: "string option"
  jp_preferred_mode :: "string option"

record AddContribution =
  ac_project_id :: string
  ac_user_id :: "string option"
  ac_mobile :: "string option"
  ac_name :: "string option"
  ac_amount :: real
  ac_mode :: string
  ac_note :: "string option"
  ac_proof_url :: "string option"
  ac_paid_at :: "nat option"

record AddExpense =
  ae_masjid_id :: string
  ae_project_id :: string
  ae_amount :: real
  ae_description :: string
  ae_spent_at :: "nat option"
  ae_added_by_user_id :: "string option"
  ae_attachment_url :: "string option"

definition CreateProject_dump :: "CreateProject \<Rightarrow> doc" where
  "CreateProject_dump b =
     [(''masjid_id'', PyStr (cp_masjid_id b)),
      (''title'', PyStr (cp_title b)),
      (''description'', opt_str (cp_description b)),
      (''is_public'', PyBool (cp_is_public b)),
      (''landing_slug'', opt_str (cp_landing_slug b)),
      (''gpay_url'', opt_str (cp_gpay_url b)),
      (''gpay_upi'', opt_str (cp_gpay_upi b)),
      (''gpay_qr_image'', opt_str (cp_gpay_qr_image b)),
      (''allowed_frequencies'', opt_strs (cp_allowed_frequencies b))]"

definition JoinProject_dump :: "JoinProject \<Rightarrow> doc" where
  "JoinProject_dump b =
     [(''project_id'', PyStr (jp_project_id b)),
      (''user_id'', PyStr (jp_user_id b)),
      (''pledge_amount'', opt_num (jp_pledge_amount b)),
      (''frequency'', opt_str (jp_frequency b)),
      (''preferred_mode'', opt_str (jp_preferred_mode b))]"

definition AddContribution_dump :: "AddContribution \<Rightarrow> doc" where
  "AddContribution_dump b =
     [(''project_id'', PyStr (ac_project_id b)),
      (''user_id'', opt_str (ac_user_id b)),
      (''mobile'', opt_str (ac_mobile b)),
      (''name'', opt_str (ac_name b)),
      (''amount'', PyNum (ac_amount b)),
      (''mode'', PyStr (ac_mode b)),
      (''note'', opt_str (ac_note b)),
      (''proof_url'', opt_str (ac_proof_url b)),
      (''paid_at'', opt_date (ac_paid_at b))]"

definition AddExpense_dump :: "AddExpense \<Rightarrow> doc" where
  "AddExpense_dump b =
     [(''masjid_id'', PyStr (ae_masjid_id b)),
      (''project_id'', PyStr (ae_project_id b)),
      (''amount'', PyNum (ae_amount b)),
      (''description'', PyStr (ae_description b)),
      (''spent_at'', opt_date (ae_spent_at b)),
      (''added_by_user_id'', opt_str (ae_added_by_user_id b)),
      (''attachment_url'', opt_str (ae_attachment_url b))]"

section \<open>The endpoints (main.py)\<close>

text \<open>
  A handler takes the request and the store and returns the response or the raised
  failure, together with the store as it is left: a write made before an exception is
  raised stays in the store. Handlers that only read return no store.
\<close>

text \<open>\<open>str(x)\<close> of an identifier, as in \<open>str(u.pop("_id"))\<close>.\<close>

definition py_str :: "pyval \<Rightarrow> failure + string" where
  "py_str v =
     (case v of
        PyOid n \<Rightarrow> Inr (str_oid n)
      | PyStr s \<Rightarrow> Inr s
      | _ \<Rightarrow> Inl (Unmodelled ''str''))"

text \<open>
  \<open>float(x)\<close>: a float is returned as it is, an \<open>int\<close> is converted to the nearest float,
  and an \<open>int\<close> too large for a float raises \<open>OverflowError\<close>.
\<close>

definition py_float :: "pyval \<Rightarrow> failure + pyfloat" where
  "py_float v =
     (case v of
        PyNum x \<Rightarrow>
          (case round64 x of FNum y \<Rightarrow> Inr (FNum y) | _ \<Rightarrow> Inl (Uncaught ''OverflowError''))
      | PyBool b \<Rightarrow> Inr (FNum (if b then 1 else 0))
      | PyStr s \<Rightarrow> Inl (Unmodelled ''float'')
      | _ \<Rightarrow> Inl (Uncaught ''TypeError''))"

text \<open>\<open>d["id"] = str(d.pop("_id"))\<close>.\<close>

definition rename_id :: "doc \<Rightarrow> failure + doc" where
  "rename_id d =
     (case map_of d ''_id'' of
        None \<Rightarrow> Inl (Uncaught ''KeyError'')
      | Some i \<Rightarrow>
          (case py_str i of
             Inl e \<Rightarrow> Inl e
           | Inr sid \<Rightarrow> Inr (dict_set ''id'' (PyStr sid) (dict_del ''_id'' d))))"

text \<open>
  \<^verbatim>\<open>
  def login(req: LoginRequest):
      u = collection("user").find_one({"mobile": req.mobile})
      if not u:
          # auto create user with default otp=mobile
          user = User(mobile=req.mobile, otp=req.mobile)
          uid = create_document("user", user)
          u = collection("user").find_one({"_id": ObjectId(uid)})
      otp = u.get("otp") or u.get("mobile")
      if req.otp != otp:
          raise HTTPException(status_code=401, detail="Invalid OTP")
      u["id"] = str(u.pop("_id"))
      return {"user": u}
  \<close>
\<close>

definition login_check :: "LoginRequest \<Rightarrow> doc option \<Rightarrow> failure + doc" where
  "login_check req found =
     (case found of
        None \<Rightarrow> Inl (Uncaught ''AttributeError'')
      | Some u \<Rightarrow>
          (let otp = py_or (dict_get u ''otp'') (dict_get u ''mobile'') in
           if PyStr (login_otp req) \<noteq> otp
           then Inl (HTTPException 401 ''Invalid OTP'')
           else (case rename_id u of
                   Inl e \<Rightarrow> Inl e
                 | Inr u' \<Rightarrow> Inr [(''user'', PyDict u')])))"

definition login :: "nat \<Rightarrow> LoginRequest \<Rightarrow> store \<Rightarrow> (failure + doc) \<times> store" where
  "login now req s =
     (let u = find_one [(''mobile'', PyStr (login_mobile req))] (collection ''user'' s) in
      if u = None \<or> u = Some [] then
        (case construct User
                [(''mobile'', PyStr (login_mobile req)), (''otp'', PyStr (login_mobile req))] of
           Inl e \<Rightarrow> (Inl e, s)
         | Inr user \<Rightarrow>
             (let (uid, s') = create_document now ''user'' user s in
              case ObjectId uid of
                None \<Rightarrow> (Inl (Uncaught ''InvalidId''), s')
              | Some i \<Rightarrow>
                  (login_check req (find_one [(''_id'', PyOid i)] (collection ''user'' s')), s')))
      else (login_check req u, s))"

text \<open>
  \<^verbatim>\<open>
  def update_otp(user_id: str, body: UpdateOtpRequest):
      res = collection("user").update_one({"_id": oid(user_id)}, {"$set": {"otp": body.new_otp}})
      if res.matched_count == 0:
          raise HTTPException(status_code=404, detail="User not found")
      return {"ok": True}
  \<close>
\<close>

definition update_otp :: "string \<Rightarrow> UpdateOtpRequest \<Rightarrow> store \<Rightarrow> (failure + doc) \<times> store" where
  "update_otp user_id body s =
     (case oid user_id of
        Inl e \<Rightarrow> (Inl e, s)
      | Inr i \<Rightarrow>
          (case update_one ''user'' [(''_id'', PyOid i)] [([''otp''], PyStr (new_otp body))] False s of
             (Inl e, s') \<Rightarrow> (Inl e, s')
           | (Inr matched_count, s') \<Rightarrow>
               if matched_count = 0
               then (Inl (HTTPException 404 ''User not found''), s')
               else (Inr [(''ok'', PyBool True)], s')))"

text \<open>
  \<^verbatim>\<open>
  def create_masjid(body: CreateMasjid):
      masjid = Masjid(name=body.name, address=body.address,
                      created_by_user_id=body.owner_user_id,
                      support_whatsapp=body.support_whatsapp)
      mid = create_document("masjid", masjid)
      # grant admin role
      collection("user").update_one(
          {"_id": oid(body.owner_user_id)},
          {"$set": {f"roles.{mid}": "admin"}},
      )
      return {"id": mid}
  \<close>
\<close>

definition create_masjid :: "nat \<Rightarrow> CreateMasjid \<Rightarrow> store \<Rightarrow> (failure + doc) \<times> store" where
  "create_masjid now body s =
     (case construct Masjid
             [(''name'', PyStr (cm_name body)),
              (''address'', opt_str (cm_address body)),
              (''created_by_user_id'', PyStr (cm_owner_user_id body)),
              (''support_whatsapp'', opt_str (cm_support_whatsapp body))] of
        Inl e \<Rightarrow> (Inl e, s)
      | Inr masjid \<Rightarrow>
          (let (mid, s1) = create_document now ''masjid'' masjid s in
           case oid (cm_owner_user_id body) of
             Inl e \<Rightarrow> (Inl e, s1)
           | Inr i \<Rightarrow>
               (case update_one ''user'' [(''_id'', PyOid i)]
                       [([''roles'', mid], PyStr ''admin'')] False s1 of
                  (Inl e, s2) \<Rightarrow> (Inl e, s2)
                | (Inr n, s2) \<Rightarrow> (Inr [(''id'', PyStr mid)], s2))))"

text \<open>
  \<^verbatim>\<open>
  def create_project(body: CreateProject):
      project = Project(**body.model_dump())
      pid = create_document("project", project)
      return {"id": pid}
  \<close>
\<close>

definition create_project :: "nat \<Rightarrow> CreateProject \<Rightarrow> store \<Rightarrow> (failure + doc) \<times> store" where
  "create_project now body s =
     (case construct Project (CreateProject_dump body) of
        Inl e \<Rightarrow> (Inl e, s)
      | Inr project \<Rightarrow>
          (let (pid, s') = create_document now ''project'' project s in
           (Inr [(''id'', PyStr pid)], s')))"

text \<open>
  \<^verbatim>\<open>
  def join_project(body: JoinProject):
      # upsert participant
      collection("participant").update_one(
          {"project_id": body.project_id, "user_id": body.user_id},
          {"$set": body.model_dump()},
          upsert=True,
      )
      return {"ok": True}
  \<close>
\<close>

definition join_project :: "JoinProject \<Rightarrow> store \<Rightarrow> (failure + doc) \<times> store" where
  "join_project body s =
     (case update_one ''participant''
             [(''project_id'', PyStr (jp_project_id body)), (''user_id'', PyStr (jp_user_id body))]
             (map (\<lambda>(k, v). ([k], v)) (JoinProject_dump body)) True s of
        (Inl e, s') \<Rightarrow> (Inl e, s')
      | (Inr n, s') \<Rightarrow> (Inr [(''ok'', PyBool True)], s'))"

text \<open>
  \<^verbatim>\<open>
  def add_contribution(body: AddContribution):
      c = Contribution(**body.model_dump())
      cid = create_document("contribution", c)
      return {"id": cid}
  \<close>
\<close>

definition add_contribution :: "nat \<Rightarrow> AddContribution \<Rightarrow> store \<Rightarrow> (failure + doc) \<times> store" where
  "add_contribution now body s =
     (case construct Contribution (AddContribution_dump body) of
        Inl e \<Rightarrow> (Inl e, s)
      | Inr c \<Rightarrow>
          (let (cid, s') = create_document now ''contribution'' c s in
           (Inr [(''id'', PyStr cid)], s')))"

text \<open>
  \<^verbatim>\<open>
  def add_expense(body: AddExpense):
      e = Expense(**body.model_dump())
      eid = create_document("expense", e)
      return {"id": eid}
  \<close>
\<close>

definition add_expense :: "nat \<Rightarrow> AddExpense \<Rightarrow> store \<Rightarrow> (failure + doc) \<times> store" where
  "add_expense now body s =
     (case construct Expense (AddExpense_dump body) of
        Inl e \<Rightarrow> (Inl e, s)
      | Inr e \<Rightarrow>
          (let (eid, s') = create_document now ''expense'' e s in
           (Inr [(''id'', PyStr eid)], s')))"

text \<open>
  \<^verbatim>\<open>
  def project_ledger(project_id: str):
      contrib_total = 0.0
      expense_total = 0.0
      for c in collection("contribution").find({"project_id": project_id, "approved": True}):
          contrib_total += float(c.get("amount", 0))
      for e in collection("expense").find({"project_id": project_id}):
          expense_total += float(e.get("amount", 0))
      balance = contrib_total - expense_total
      return {"contributed": contrib_total, "spent": expense_total, "balance": balance}
  \<close>
  The loop \<open>total += float(r.get("amount", 0))\<close> over a cursor, \<open>total\<close> being a float:
\<close>

fun add_amounts :: "pyfloat \<Rightarrow> doc list \<Rightarrow> failure + pyfloat" where
  "add_amounts tot [] = Inr tot"
| "add_amounts tot (r # rs) =
     (case py_float (dict_get_or r ''amount'' (PyNum 0)) of
        Inl e \<Rightarrow> Inl e
      | Inr x \<Rightarrow> add_amounts (float_add tot x) rs)"

text \<open>The handler, followed by the rendering of the dictionary it returns.\<close>

definition project_ledger :: "string \<Rightarrow> store \<Rightarrow> failure + doc" where
  "project_ledger project_id s =
     (case add_amounts (FNum 0)
             (find_all [(''project_id'', PyStr project_id), (''approved'', PyBool True)]
                (collection ''contribution'' s)) of
        Inl e \<Rightarrow> Inl e
      | Inr contrib_total \<Rightarrow>
          (case add_amounts (FNum 0)
                  (find_all [(''project_id'', PyStr project_id)] (collection ''expense'' s)) of
             Inl e \<Rightarrow> Inl e
           | Inr expense_total \<Rightarrow>
               (let balance = float_sub contrib_total expense_total in
                json_floats [(''contributed'', contrib_total),
                             (''spent'', expense_total),
                             (''balance'', balance)])))"

text \<open>
  \<open>.sort("created_at", -1)\<close>: newest first. A document whose \<open>created_at\<close> is not
  a date sorts after every dated one (the store orders dates above the other value
  shapes that occur here).
\<close>

definition created_key :: "doc \<Rightarrow> nat" where
  "created_key d = (case map_of d ''created_at'' of Some (PyDate t) \<Rightarrow> Suc t | _ \<Rightarrow> 0)"

fun insert_desc :: "doc \<Rightarrow> doc list \<Rightarrow> doc list" where
  "insert_desc d [] = [d]"
| "insert_desc d (x # xs) =
     (if created_key d \<le> created_key x then x # insert_desc d xs else d # x # xs)"

definition sort_created_desc :: "doc list \<Rightarrow> doc list" where
  "sort_created_desc ds = foldr insert_desc ds []"

text \<open>
  \<^verbatim>\<open>
  def public_project(landing_slug: str):
      p = collection("project").find_one({"landing_slug": landing_slug, "is_public": True})
      if not p:
          raise HTTPException(status_code=404, detail="Project not found")
      p["id"] = str(p.pop("_id"))
      # last 50 contributions
      contribs = []
      total = 0.0
      for c in collection("contribution").find({"project_id": p["id"], "approved": True}).sort("created_at", -1).limit(50):
          c["id"] = str(c.pop("_id"))
          total += float(c.get("amount", 0))
          contribs.append({"name": c.get("name") or c.get("mobile", "Guest"), "amount": c.get("amount"), "paid_at": c.get("paid_at") or c.get("created_at")})
      return {"project": p, "recent_contributions": contribs, "total": total}
  \<close>
\<close>

definition display_entry :: "doc \<Rightarrow> doc" where
  "display_entry c =
     [(''name'', py_or (dict_get c ''name'') (dict_get_or c ''mobile'' (PyStr ''Guest''))),
      (''amount'', dict_get c ''amount''),
      (''paid_at'', py_or (dict_get c ''paid_at'') (dict_get c ''created_at''))]"

fun recent_loop :: "pyfloat \<Rightarrow> doc list \<Rightarrow> doc list \<Rightarrow> failure + (pyfloat \<times> doc list)" where
  "recent_loop tot contribs [] = Inr (tot, contribs)"
| "recent_loop tot contribs (c0 # cs) =
     (case rename_id c0 of
        Inl e \<Rightarrow> Inl e
      | Inr c \<Rightarrow>
          (case py_float (dict_get_or c ''amount'' (PyNum 0)) of
             Inl e \<Rightarrow> Inl e
           | Inr x \<Rightarrow> recent_loop (float_add tot x) (contribs @ [display_entry c]) cs))"

definition public_project :: "string \<Rightarrow> store \<Rightarrow> failure + doc" where
  "public_project landing_slug s =
     (case find_one [(''landing_slug'', PyStr landing_slug), (''is_public'', PyBool True)]
             (collection ''project'' s) of
        None \<Rightarrow> Inl (HTTPException 404 ''Project not found'')
      | Some p0 \<Rightarrow>
          if p0 = [] then Inl (HTTPException 404 ''Project not found'')
          else
            (case rename_id p0 of
               Inl e \<Rightarrow> Inl e
             | Inr p \<Rightarrow>
                 (case recent_loop (FNum 0) []
                         (take 50 (sort_created_desc
                            (find_all [(''project_id'', dict_get p ''id''), (''approved'', PyBool True)]
                               (collection ''contribution'' s)))) of
                    Inl e \<Rightarrow> Inl e
                  | Inr (tot, contribs) \<Rightarrow>
                      (case json_floats [(''total'', tot)] of
                         Inl e \<Rightarrow> Inl e
                       | Inr t \<Rightarrow>
                           Inr ([(''project'', PyDict p),
                                 (''recent_contributions'', PyList (map PyDict contribs))] @ t)))))"

section \<open>Predicates and examples used in the statements\<close>

text \<open>A stored document carries the identifier \<open>i\<close>.\<close>

definition has_id :: "nat \<Rightarrow> doc \<Rightarrow> bool" where
  "has_id i d = (map_of d ''_id'' = Some (PyOid i))"

text \<open>The store after one insertion into the named collection.\<close>

definition with_inserted :: "string \<Rightarrow> doc \<Rightarrow> store \<Rightarrow> store" where
  "with_inserted name d s =
     s\<lparr> colls := (colls s)(name := colls s name @ [d]), next_oid := Suc (next_oid s) \<rparr>"

text \<open>The document that create-masjid inserts for a request.\<close>

definition masjid_doc :: "nat \<Rightarrow> nat \<Rightarrow> CreateMasjid \<Rightarrow> doc" where
  "masjid_doc now i body =
     [(''_id'', PyOid i),
      (''name'', PyStr (cm_name body)),
      (''address'', opt_str (cm_address body)),
      (''created_by_user_id'', PyStr (cm_owner_user_id body)),
      (''support_whatsapp'', opt_str (cm_support_whatsapp body)),
      (''created_at'', PyDate now)]"

text \<open>The amount a ledger record counts for: its \<open>amount\<close>, or 0 when it has none.\<close>

definition amount_of :: "doc \<Rightarrow> real" where
  "amount_of d = (case map_of d ''amount'' of Some (PyNum x) \<Rightarrow> x | _ \<Rightarrow> 0)"

text \<open>A real number that is a finite float: rounding leaves it unchanged.\<close>

definition is_double :: "real \<Rightarrow> bool" where
  "is_double x = (round64 x = FNum x)"

text \<open>A record whose \<open>amount\<close>, when present, is a finite float: what every record is that add-contribution or add-expense writes for a request with a finite amount.\<close>

definition numeric_amount :: "doc \<Rightarrow> bool" where
  "numeric_amount d =
     (case map_of d ''amount'' of
        None \<Rightarrow> True
      | Some (PyNum x) \<Rightarrow> is_double x
      | Some _ \<Rightarrow> False)"

text \<open>The floating-point sum of a list of floats, accumulated from \<open>0.0\<close> in list order, each addition rounded.\<close>

definition float_sum :: "real list \<Rightarrow> pyfloat" where
  "float_sum xs = foldl float_add (FNum 0) (map FNum xs)"

text \<open>A contribution of the project that is approved.\<close>

definition is_approved_for :: "string \<Rightarrow> doc \<Rightarrow> bool" where
  "is_approved_for pid d =
     (map_of d ''project_id'' = Some (PyStr pid) \<and> map_of d ''approved'' = Some (PyBool True))"

text \<open>A record of the project.\<close>

definition is_for :: "string \<Rightarrow> doc \<Rightarrow> bool" where
  "is_for pid d = (map_of d ''project_id'' = Some (PyStr pid))"

text \<open>A project with the landing slug that is public.\<close>

definition is_public_with_slug :: "string \<Rightarrow> doc \<Rightarrow> bool" where
  "is_public_with_slug slug p =
     (map_of p ''landing_slug'' = Some (PyStr slug) \<and> map_of p ''is_public'' = Some (PyBool True))"

definition one_user_store :: store where
  "one_user_store =
     \<lparr> colls = (\<lambda>name. [])(''user'' :=
         [[(''_id'', PyOid 16), (''mobile'', PyStr ''5550001''), (''name'', PyNone),
           (''otp'', PyStr ''1111''), (''roles'', PyDict []), (''is_super_admin'', PyBool False),
           (''created_at'', PyDate 7)]]),
       next_oid = 17 \<rparr>"

definition ledger_example :: store where
  "ledger_example =
     \<lparr> colls = (\<lambda>name. [])
         (''contribution'' :=
            [[(''_id'', PyOid 1), (''project_id'', PyStr ''p1''), (''amount'', PyNum 200), (''approved'', PyBool True)],
             [(''_id'', PyOid 2), (''project_id'', PyStr ''p1''), (''amount'', PyNum 1000), (''approved'', PyBool False)],
             [(''_id'', PyOid 3), (''project_id'', PyStr ''p1''), (''amount'', PyNum 300), (''approved'', PyBool True)],
             [(''_id'', PyOid 4), (''project_id'', PyStr ''p2''), (''amount'', PyNum 40), (''approved'', PyBool True)]],
          ''expense'' :=
            [[(''_id'', PyOid 5), (''project_id'', PyStr ''p1''), (''amount'', PyNum 100)],
             [(''_id'', PyOid 6), (''project_id'', PyStr ''p2''), (''amount'', PyNum 9)],
             [(''_id'', PyOid 7), (''project_id'', PyStr ''p1''), (''amount'', PyNum 50)]]),
       next_oid = 8 \<rparr>"

definition landing_example :: store where
  "landing_example =
     \<lparr> colls = (\<lambda>name. [])
         (''project'' :=
            [[(''_id'', PyOid 1), (''title'', PyStr ''Roof''), (''is_public'', PyBool False),
              (''landing_slug'', PyStr ''roof'')],
             [(''_id'', PyOid 2), (''title'', PyStr ''Well''), (''is_public'', PyBool True),
              (''landing_slug'', PyStr ''well'')]]),
       next_oid = 3 \<rparr>"

definition owner_request :: "string \<Rightarrow> CreateMasjid" where
  "owner_request owner =
     \<lparr> cm_name = ''Masjid An-Noor'', cm_address = None, cm_support_whatsapp = None,
       cm_owner_user_id = owner \<rparr>"

text \<open>The user document that login inserts for a mobile number it does not know.\<close>

definition user_doc :: "nat \<Rightarrow> nat \<Rightarrow> string \<Rightarrow> doc" where
  "user_doc now i m =
     [(''_id'', PyOid i),
      (''mobile'', PyStr m),
      (''name'', PyNone),
      (''otp'', PyStr m),
      (''roles'', PyDict []),
      (''is_super_admin'', PyBool False),
      (''created_at'', PyDate now)]"

text \<open>The document that add-contribution inserts for a valid request.\<close>

definition contribution_doc :: "nat \<Rightarrow> nat \<Rightarrow> AddContribution \<Rightarrow> doc" where
  "contribution_doc now i b =
     [(''_id'', PyOid i),
      (''project_id'', PyStr (ac_project_id b)),
      (''user_id'', opt_str (ac_user_id b)),
      (''mobile'', opt_str (ac_mobile b)),
      (''name'', opt_str (ac_name b)),
      (''amount'', PyNum (ac_amount b)),
      (''mode'', PyStr (ac_mode b)),
      (''paid_at'', opt_date (ac_paid_at b)),
      (''note'', opt_str (ac_note b)),
      (''proof_url'', opt_str (ac_proof_url b)),
      (''approved'', PyBool True),
      (''created_at'', PyDate now)]"

definition cash_gift :: "real \<Rightarrow> AddContribution" where
  "cash_gift a =
     \<lparr> ac_project_id = ''p1'', ac_user_id = None, ac_mobile = None, ac_name = None,
       ac_amount = a, ac_mode = ''direct'', ac_note = None, ac_proof_url = None,
       ac_paid_at = None \<rparr>"

definition project_request :: "string list option \<Rightarrow> CreateProject" where
  "project_request fs =
     \<lparr> cp_masjid_id = ''m1'', cp_title = ''Well'', cp_description = None, cp_is_public = True,
       cp_landing_slug = Some ''well'', cp_gpay_url = None, cp_gpay_upi = None,
       cp_gpay_qr_image = None, cp_allowed_frequencies = fs \<rparr>"

definition bad_pledge :: JoinProject where
  "bad_pledge =
     \<lparr> jp_project_id = ''p1'', jp_user_id = ''u1'', jp_pledge_amount = Some (- 5),
       jp_frequency = Some ''daily'', jp_preferred_mode = None \<rparr>"

text \<open>A participant record of the pair \<open>(project_id, user_id)\<close>.\<close>

definition is_pair :: "string \<Rightarrow> string \<Rightarrow> doc \<Rightarrow> bool" where
  "is_pair p u d =
     (map_of d ''project_id'' = Some (PyStr p) \<and> map_of d ''user_id'' = Some (PyStr u))"

text \<open>The participant records of a pair, in store order.\<close>

definition pair_records :: "string \<Rightarrow> string \<Rightarrow> store \<Rightarrow> doc list" where
  "pair_records p u s = filter (is_pair p u) (collection ''participant'' s)"

text \<open>A document after the \<open>$set\<close> of a join request: all five fields of the request body are written, also those that are \<open>None\<close>.\<close>

definition joined :: "JoinProject \<Rightarrow> doc \<Rightarrow> doc" where
  "joined b d =
     dict_set ''preferred_mode'' (opt_str (jp_preferred_mode b))
       (dict_set ''frequency'' (opt_str (jp_frequency b))
         (dict_set ''pledge_amount'' (opt_num (jp_pledge_amount b))
           (dict_set ''user_id'' (PyStr (jp_user_id b))
             (dict_set ''project_id'' (PyStr (jp_project_id b)) d))))"

text \<open>A list of documents with its first document satisfying \<open>P\<close> replaced by its image under \<open>g\<close>.\<close>

fun update_first_with :: "(doc \<Rightarrow> bool) \<Rightarrow> (doc \<Rightarrow> doc) \<Rightarrow> doc list \<Rightarrow> doc list" where
  "update_first_with P g [] = []"
| "update_first_with P g (d # ds) = (if P d then g d # ds else d # update_first_with P g ds)"

definition pledge :: "real \<Rightarrow> string \<Rightarrow> JoinProject" where
  "pledge a f =
     \<lparr> jp_project_id = ''p1'', jp_user_id = ''u1'', jp_pledge_amount = Some a,
       jp_frequency = Some f, jp_preferred_mode = None \<rparr>"

definition guest_gift :: AddContribution where
  "guest_gift =
     \<lparr> ac_project_id = str_oid 0, ac_user_id = None, ac_mobile = None, ac_name = None,
       ac_amount = 25, ac_mode = ''direct'', ac_note = None, ac_proof_url = None,
       ac_paid_at = None \<rparr>"

text \<open>The store after creating a public project and recording, for it, a contribution that names neither a contributor nor a mobile and gives no payment date.\<close>

definition guest_store :: store where
  "guest_store =
     snd (add_contribution 2 guest_gift
       (snd (create_project 1 (project_request (Some [''monthly''])) empty_store)))"

text \<open>The \<open>recent_contributions\<close> entry of a landing response.\<close>

definition recent_contributions :: "failure + doc \<Rightarrow> pyval option" where
  "recent_contributions r = (case r of Inl e \<Rightarrow> None | Inr d \<Rightarrow> map_of d ''recent_contributions'')"

text \<open>The document that add-expense inserts for a valid request.\<close>

definition expense_doc :: "nat \<Rightarrow> nat \<Rightarrow> AddExpense \<Rightarrow> doc" where
  "expense_doc now i b =
     [(''_id'', PyOid i),
      (''masjid_id'', PyStr (ae_masjid_id b)),
      (''project_id'', PyStr (ae_project_id b)),
      (''amount'', PyNum (ae_amount b)),
      (''description'', PyStr (ae_description b)),
      (''spent_at'', opt_date (ae_spent_at b)),
      (''added_by_user_id'', opt_str (ae_added_by_user_id b)),
      (''attachment_url'', opt_str (ae_attachment_url b)),
      (''created_at'', PyDate now)]"

text \<open>Every identifier among the users was handed out before: it is below the store's counter.\<close>

definition user_ids_below :: "store \<Rightarrow> bool" where
  "user_ids_below s =
     list_all (\<lambda>u. case map_of u ''_id'' of Some (PyOid i) \<Rightarrow> i < next_oid s | _ \<Rightarrow> True)
       (collection ''user'' s)"

text \<open>The float \<open>2 ^ 1023\<close>, about \<open>8.98846567431158e307\<close>.\<close>

definition huge :: real where
  "huge = 2 ^ 1023"

text \<open>An expense request for the project \<open>p1\<close>.\<close>

definition purchase :: "real \<Rightarrow> AddExpense" where
  "purchase a =
     \<lparr> ae_masjid_id = ''m1'', ae_project_id = ''p1'', ae_amount = a,
       ae_description = ''cement'', ae_spent_at = None, ae_added_by_user_id = None,
       ae_attachment_url = None \<rparr>"

text \<open>The store after two contributions of \<open>0.1\<close> and \<open>0.2\<close> and an expense of \<open>0.3\<close> for one project, the amounts being the floats nearest to these decimals (lemma \<open>nearest_tenths\<close>).\<close>

definition tenths_store :: store where
  "tenths_store =
     snd (add_expense 3 (purchase (5404319552844595 / 2 ^ 54))
       (snd (add_contribution 2 (cash_gift (3602879701896397 / 2 ^ 54))
         (snd (add_contribution 1 (cash_gift (3602879701896397 / 2 ^ 55)) empty_store)))))"

text \<open>The store after two contributions of \<open>2 ^ 1023\<close> each for one project.\<close>

definition huge_store :: store where
  "huge_store =
     snd (add_contribution 2 (cash_gift huge)
       (snd (add_contribution 1 (cash_gift huge) empty_store)))"

text \<open>An entry of a ledger response, when there is a response.\<close>

definition ledger_field :: "string \<Rightarrow> failure + doc \<Rightarrow> pyval option" where
  "ledger_field k r = (case r of Inl e \<Rightarrow> None | Inr d \<Rightarrow> map_of d k)"

section \<open>Properties\<close>

subsection \<open>Identifiers and lookups\<close>

lemma digit_val_table: "\<forall>d \<in> set [0..<16]. digit_val (hexchars ! d) = Some d"
  by code_simp

lemma digit_val_hexchars: "d < 16 \<Longrightarrow> digit_val (hexchars ! d) = Some d"
  using digit_val_table by simp

lemma hexval_append:
  "hexval acc (xs @ ys) = (case hexval acc xs of None \<Rightarrow> None | Some a \<Rightarrow> hexval a ys)"
  by (induction xs arbitrary: acc) (auto split: option.splits)

lemma hexval_hexstr: "hexval acc (hexstr k n) = Some (acc * 16 ^ k + n mod 16 ^ k)"
proof (induction k arbitrary: n acc)
  case 0
  then show ?case by simp
next
  case (Suc k)
  have "n mod (16 * 16 ^ k) = 16 * (n div 16 mod 16 ^ k) + n mod 16"
    by (simp add: mod_mult2_eq)
  then show ?case
    by (simp add: hexval_append Suc digit_val_hexchars algebra_simps)
qed

lemma length_hexstr: "length (hexstr k n) = k"
  by (induction k arbitrary: n) auto

lemma ObjectId_str_oid: "n < 16 ^ 24 \<Longrightarrow> ObjectId (str_oid n) = Some n"
  by (simp add: ObjectId_def str_oid_def length_hexstr hexval_hexstr)

lemma find_one_None_iff: "find_one flt ds = None \<longleftrightarrow> (\<forall>d\<in>set ds. \<not> matches flt d)"
  by (induction ds) auto

lemma find_one_SomeD: "find_one flt ds = Some d \<Longrightarrow> d \<in> set ds \<and> matches flt d"
  by (induction ds) (auto split: if_splits)

lemma find_one_append:
  "find_one flt (xs @ ys) = (case find_one flt xs of None \<Rightarrow> find_one flt ys | Some d \<Rightarrow> Some d)"
  by (induction xs) auto

subsection \<open>Updating a document\<close>

lemma update_first_no_match:
  "\<forall>d\<in>set ds. \<not> matches flt d \<Longrightarrow> update_first flt us ds = Some (0, ds)"
  by (induction ds) auto

lemma update_first_match:
  "ds = pre @ d # post \<Longrightarrow> \<forall>x\<in>set pre. \<not> matches flt x \<Longrightarrow> matches flt d \<Longrightarrow>
   apply_set us d = Some d' \<Longrightarrow> update_first flt us ds = Some (1, pre @ d' # post)"
  by (induction pre arbitrary: ds) auto

lemma first_match_split:
  "\<exists>d\<in>set ds. P d \<Longrightarrow> \<exists>pre d post. ds = pre @ d # post \<and> (\<forall>x\<in>set pre. \<not> P x) \<and> P d"
  by (metis split_list_first_prop)

lemma matches_id: "matches [(''_id'', PyOid i)] d = has_id i d"
  by (simp add: matches_def has_id_def)

lemma update_otp_invalid:
  "ObjectId user_id = None \<Longrightarrow> update_otp user_id body s = (Inl (HTTPException 400 ''Invalid id''), s)"
  by (simp add: update_otp_def oid_def)

lemma update_otp_not_found:
  assumes "ObjectId user_id = Some i" "\<forall>u\<in>set (collection ''user'' s). \<not> has_id i u"
  shows "update_otp user_id body s = (Inl (HTTPException 404 ''User not found''), s)"
proof -
  have "update_first [(''_id'', PyOid i)] [([''otp''], PyStr (new_otp body))] (colls s ''user'') = Some (0, colls s ''user'')"
    using assms(2) by (intro update_first_no_match) (simp add: matches_id collection_def)
  then show ?thesis using assms(1)
    by (simp add: update_otp_def oid_def update_one_def)
qed

lemma update_otp_found:
  assumes "ObjectId user_id = Some i"
    and "collection ''user'' s = pre @ u # post"
    and "\<forall>x\<in>set pre. \<not> has_id i x" and "has_id i u"
  shows "update_otp user_id body s =
          (Inr [(''ok'', PyBool True)],
           s\<lparr> colls := (colls s)(''user'' := pre @ dict_set ''otp'' (PyStr (new_otp body)) u # post) \<rparr>)"
proof -
  have "update_first [(''_id'', PyOid i)] [([''otp''], PyStr (new_otp body))] (colls s ''user'')
        = Some (1, pre @ dict_set ''otp'' (PyStr (new_otp body)) u # post)"
    using assms(2-4) by (intro update_first_match) (simp_all add: matches_id collection_def)
  then show ?thesis using assms(1)
    by (simp add: update_otp_def oid_def update_one_def)
qed

lemma map_of_dict_set: "map_of (dict_set k v d) = (map_of d)(k \<mapsto> v)"
  by (induction d) (auto simp: fun_eq_iff)

subsection \<open>Masjid creation, the public landing and the ledger\<close>

lemma case_opt_str: "(case opt_str x of PyStr s \<Rightarrow> True | _ \<Rightarrow> False) = (opt_str x \<noteq> PyNone)"
  by (cases x) (simp_all add: opt_str_def)

lemma case_opt_date: "(case opt_date x of PyDate t \<Rightarrow> True | _ \<Rightarrow> False) = (opt_date x \<noteq> PyNone)"
  by (cases x) (simp_all add: opt_date_def)

lemma construct_Masjid:
  "construct Masjid
     [(''name'', PyStr n), (''address'', opt_str a),
      (''created_by_user_id'', PyStr ow), (''support_whatsapp'', opt_str w)]
   = Inr [(''name'', PyStr n), (''address'', opt_str a),
          (''created_by_user_id'', PyStr ow), (''support_whatsapp'', opt_str w)]"
  by (simp add: construct_def Masjid_def case_opt_str)

lemma create_document_eq:
  "create_document now name data s =
     (str_oid (next_oid s),
      with_inserted name ((''_id'', PyOid (next_oid s)) # data @ [(''created_at'', PyDate now)]) s)"
  by (simp add: create_document_def with_inserted_def Let_def)

lemma collection_with_inserted:
  "collection name' (with_inserted name d s) =
     (if name' = name then collection name s @ [d] else collection name' s)"
  by (simp add: collection_def with_inserted_def)

lemma update_one_no_match:
  assumes "\<forall>d\<in>set (collection name s). \<not> matches flt d"
  shows "update_one name flt us False s = (Inr 0, s)"
proof -
  have "update_first flt us (colls s name) = Some (0, colls s name)"
    using assms by (intro update_first_no_match) (simp add: collection_def)
  then show ?thesis by (simp add: update_one_def)
qed

lemma create_masjid_invalid:
  assumes "ObjectId (cm_owner_user_id body) = None"
  shows "create_masjid now body s =
          (Inl (HTTPException 400 ''Invalid id''),
           with_inserted ''masjid'' (masjid_doc now (next_oid s) body) s)"
  using assms
  by (simp add: create_masjid_def construct_Masjid create_document_eq oid_def masjid_doc_def)

lemma create_masjid_no_owner:
  assumes "ObjectId (cm_owner_user_id body) = Some i"
    and "\<forall>u\<in>set (collection ''user'' s). \<not> has_id i u"
  shows "create_masjid now body s =
          (Inr [(''id'', PyStr (str_oid (next_oid s)))],
           with_inserted ''masjid'' (masjid_doc now (next_oid s) body) s)"
proof -
  let ?s1 = "with_inserted ''masjid'' (masjid_doc now (next_oid s) body) s"
  have "\<forall>d\<in>set (collection ''user'' ?s1). \<not> matches [(''_id'', PyOid i)] d"
    using assms(2) by (simp add: collection_with_inserted matches_id)
  then have "update_one ''user'' [(''_id'', PyOid i)] [([''roles'', str_oid (next_oid s)], PyStr ''admin'')] False ?s1 = (Inr 0, ?s1)"
    by (rule update_one_no_match)
  then show ?thesis using assms(1)
    by (simp add: create_masjid_def construct_Masjid create_document_eq oid_def masjid_doc_def)
qed

lemma matches_public: "matches [(''landing_slug'', PyStr slug), (''is_public'', PyBool True)] p = is_public_with_slug slug p"
  by (simp add: matches_def is_public_with_slug_def)

lemma public_project_privacy:
  "(\<forall>r. public_project slug s = Inr r \<longrightarrow> (\<exists>p\<in>set (collection ''project'' s). is_public_with_slug slug p))
   \<and> ((\<forall>p\<in>set (collection ''project'' s). \<not> is_public_with_slug slug p) \<longrightarrow>
        public_project slug s = Inl (HTTPException 404 ''Project not found''))"
proof (intro conjI allI impI)
  fix r assume "public_project slug s = Inr r"
  then obtain p where "find_one [(''landing_slug'', PyStr slug), (''is_public'', PyBool True)] (collection ''project'' s) = Some p"
    by (auto simp: public_project_def split: option.splits)
  then show "\<exists>p\<in>set (collection ''project'' s). is_public_with_slug slug p"
    using find_one_SomeD matches_public by blast
next
  assume "\<forall>p\<in>set (collection ''project'' s). \<not> is_public_with_slug slug p"
  then have "find_one [(''landing_slug'', PyStr slug), (''is_public'', PyBool True)] (collection ''project'' s) = None"
    by (simp add: find_one_None_iff matches_public)
  then show "public_project slug s = Inl (HTTPException 404 ''Project not found'')"
    by (simp add: public_project_def)
qed

lemmas float_eval =
  round64_def ilog2_def pow2_def round_half_even_def Let_def bit_length.simps float_sub_def

lemma round64_zero: "round64 0 = FNum 0"
  by (simp add: round64_def)

lemma py_float_amount:
  assumes "numeric_amount r"
  shows "py_float (dict_get_or r ''amount'' (PyNum 0)) = Inr (FNum (amount_of r))"
proof (cases "map_of r ''amount''")
  case None
  then show ?thesis
    by (simp add: dict_get_or_def py_float_def amount_of_def round64_zero)
next
  case (Some v)
  with assms obtain x where v: "v = PyNum x" and x: "round64 x = FNum x"
    by (cases v) (simp_all add: numeric_amount_def is_double_def)
  with Some show ?thesis
    by (simp add: dict_get_or_def py_float_def amount_of_def)
qed

lemma add_amounts_sum:
  "list_all numeric_amount rs \<Longrightarrow>
   add_amounts t rs = Inr (foldl float_add t (map FNum (map amount_of rs)))"
proof (induction rs arbitrary: t)
  case Nil
  then show ?case by simp
next
  case (Cons r rs)
  from Cons.prems have "numeric_amount r" and "list_all numeric_amount rs" by simp_all
  then show ?case by (simp add: py_float_amount Cons.IH)
qed

lemma list_all_find_all: "list_all P ds \<Longrightarrow> list_all P (find_all flt ds)"
  by (simp add: find_all_def list_all_iff)

lemma find_all_approved:
  "find_all [(''project_id'', PyStr pid), (''approved'', PyBool True)] ds = filter (is_approved_for pid) ds"
  by (simp add: find_all_def matches_def is_approved_for_def cong: filter_cong)

lemma find_all_for:
  "find_all [(''project_id'', PyStr pid)] ds = filter (is_for pid) ds"
  by (simp add: find_all_def matches_def is_for_def cong: filter_cong)

lemma json_floats_ledger:
  "json_floats [(''contributed'', C), (''spent'', E), (''balance'', float_sub C E)] =
     (case (C, E) of
        (FNum c, FNum e) \<Rightarrow>
          (case round64 (c - e) of
             FNum b \<Rightarrow> Inr [(''contributed'', PyNum c), (''spent'', PyNum e), (''balance'', PyNum b)]
           | _ \<Rightarrow> Inl (Uncaught ''ValueError''))
      | _ \<Rightarrow> Inl (Uncaught ''ValueError''))"
  by (cases C; cases E; simp add: float_sub_def split: pyfloat.splits)

lemma project_ledger_sums:
  assumes "list_all numeric_amount (collection ''contribution'' s)"
    and "list_all numeric_amount (collection ''expense'' s)"
  shows "project_ledger pid s =
     (case (float_sum (map amount_of (filter (is_approved_for pid) (collection ''contribution'' s))),
            float_sum (map amount_of (filter (is_for pid) (collection ''expense'' s)))) of
        (FNum c, FNum e) \<Rightarrow>
          (case round64 (c - e) of
             FNum b \<Rightarrow> Inr [(''contributed'', PyNum c), (''spent'', PyNum e), (''balance'', PyNum b)]
           | _ \<Rightarrow> Inl (Uncaught ''ValueError''))
      | _ \<Rightarrow> Inl (Uncaught ''ValueError''))"
proof -
  have "list_all numeric_amount (filter (is_approved_for pid) (collection ''contribution'' s))"
    using assms(1) by (simp add: list_all_iff)
  then have c: "add_amounts (FNum 0) (find_all [(''project_id'', PyStr pid), (''approved'', PyBool True)] (collection ''contribution'' s))
           = Inr (float_sum (map amount_of (filter (is_approved_for pid) (collection ''contribution'' s))))"
    by (simp add: find_all_approved add_amounts_sum float_sum_def)
  have "list_all numeric_amount (filter (is_for pid) (collection ''expense'' s))"
    using assms(2) by (simp add: list_all_iff)
  then have e: "add_amounts (FNum 0) (find_all [(''project_id'', PyStr pid)] (collection ''expense'' s))
           = Inr (float_sum (map amount_of (filter (is_for pid) (collection ''expense'' s))))"
    by (simp add: find_all_for add_amounts_sum float_sum_def)
  show ?thesis
    unfolding project_ledger_def c e Let_def json_floats_ledger by simp
qed

subsection \<open>Update-OTP, masjid creation and landing privacy: claims C8, C10 and C6\<close>

text \<open>Claim C8. Update-OTP has three outcomes. When the \<open>user_id\<close> path parameter is not a well-formed store identifier, the request fails with the client error 400 whose detail is exactly \<open>Invalid id\<close>, and the store is unchanged. When it is well-formed and no user carries it, the request fails with 404 \<open>User not found\<close>. Otherwise the request succeeds, and the first user carrying the identifier has its \<open>otp\<close> field set to the new value, every other document being unchanged.\<close>

theorem update_otp_outcomes:
  "(ObjectId user_id = None \<longrightarrow>
      update_otp user_id body s = (Inl (HTTPException 400 ''Invalid id''), s)
      \<and> is_client_error (fst (update_otp user_id body s)))
   \<and> (ObjectId user_id = Some i \<and> (\<forall>u\<in>set (collection ''user'' s). \<not> has_id i u) \<longrightarrow>
      update_otp user_id body s = (Inl (HTTPException 404 ''User not found''), s))
   \<and> (ObjectId user_id = Some i \<and> collection ''user'' s = pre @ u # post
        \<and> (\<forall>x\<in>set pre. \<not> has_id i x) \<and> has_id i u \<longrightarrow>
      update_otp user_id body s =
        (Inr [(''ok'', PyBool True)],
         s\<lparr> colls := (colls s)(''user'' := pre @ dict_set ''otp'' (PyStr (new_otp body)) u # post) \<rparr>)
      \<and> map_of (dict_set ''otp'' (PyStr (new_otp body)) u) ''otp'' = Some (PyStr (new_otp body)))"
  using update_otp_invalid [of user_id body s]
    update_otp_not_found [of user_id i s body]
    update_otp_found [of user_id i s pre u post body]
  by (auto simp: is_client_error_def map_of_dict_set)

text \<open>The three outcomes on a store with one user.\<close>

theorem update_otp_outcomes_witness:
  "ObjectId ''not-an-id'' = None
   \<and> update_otp ''not-an-id'' \<lparr> new_otp = ''2222'' \<rparr> one_user_store
       = (Inl (HTTPException 400 ''Invalid id''), one_user_store)
   \<and> ObjectId ''000000000000000000000011'' = Some 17
   \<and> update_otp ''000000000000000000000011'' \<lparr> new_otp = ''2222'' \<rparr> one_user_store
       = (Inl (HTTPException 404 ''User not found''), one_user_store)
   \<and> ObjectId ''000000000000000000000010'' = Some 16
   \<and> fst (update_otp ''000000000000000000000010'' \<lparr> new_otp = ''2222'' \<rparr> one_user_store)
       = Inr [(''ok'', PyBool True)]
   \<and> map (\<lambda>u. map_of u ''otp'')
        (collection ''user'' (snd (update_otp ''000000000000000000000010'' \<lparr> new_otp = ''2222'' \<rparr> one_user_store)))
       = [Some (PyStr ''2222'')]"
proof -
  have a: "ObjectId ''not-an-id'' = None" by (simp add: ObjectId_def)
  have b: "ObjectId ''000000000000000000000011'' = Some 17" by (simp add: ObjectId_def digit_val_def)
  have c: "ObjectId ''000000000000000000000010'' = Some 16" by (simp add: ObjectId_def digit_val_def)
  have nf: "\<forall>u\<in>set (collection ''user'' one_user_store). \<not> has_id 17 u"
    by (simp add: one_user_store_def collection_def has_id_def)
  have f: "collection ''user'' one_user_store = [] @ hd (collection ''user'' one_user_store) # []"
    by (simp add: one_user_store_def collection_def)
  have h: "has_id 16 (hd (collection ''user'' one_user_store))"
    by (simp add: one_user_store_def collection_def has_id_def)
  note t1 = update_otp_outcomes [where user_id = "''not-an-id''" and body = "\<lparr> new_otp = ''2222'' \<rparr>"
      and s = one_user_store and i = 0 and pre = "[]" and u = "[]" and post = "[]"]
  note t2 = update_otp_outcomes [where user_id = "''000000000000000000000011''"
      and body = "\<lparr> new_otp = ''2222'' \<rparr>" and s = one_user_store and i = 17
      and pre = "[]" and u = "[]" and post = "[]"]
  note t3 = update_otp_outcomes [where user_id = "''000000000000000000000010''"
      and body = "\<lparr> new_otp = ''2222'' \<rparr>" and s = one_user_store and i = 16
      and pre = "[]" and u = "hd (collection ''user'' one_user_store)" and post = "[]"]
  have r1: "update_otp ''not-an-id'' \<lparr> new_otp = ''2222'' \<rparr> one_user_store
       = (Inl (HTTPException 400 ''Invalid id''), one_user_store)"
    using t1 a by simp
  have r2: "update_otp ''000000000000000000000011'' \<lparr> new_otp = ''2222'' \<rparr> one_user_store
       = (Inl (HTTPException 404 ''User not found''), one_user_store)"
    using t2 b nf by simp
  have r3: "update_otp ''000000000000000000000010'' \<lparr> new_otp = ''2222'' \<rparr> one_user_store =
        (Inr [(''ok'', PyBool True)],
         one_user_store\<lparr> colls := (colls one_user_store)(''user'' :=
            [] @ dict_set ''otp'' (PyStr ''2222'') (hd (collection ''user'' one_user_store)) # []) \<rparr>)"
    using t3 c f h by simp
  show ?thesis
    unfolding r1 r2 r3 using a b c
    by (simp add: one_user_store_def collection_def)
qed

text \<open>Claim C10. Create-masjid inserts the masjid document before it parses \<open>owner_user_id\<close>. With a malformed owner identifier the request fails with 400 \<open>Invalid id\<close> and the new masjid document stays in the store. With a well-formed owner identifier that no user carries, the request succeeds and returns the new masjid identifier, and the user collection is unchanged: nobody is granted the admin role.\<close>

theorem create_masjid_insert_before_parse:
  "(ObjectId (cm_owner_user_id body) = None \<longrightarrow>
      create_masjid now body s =
        (Inl (HTTPException 400 ''Invalid id''),
         with_inserted ''masjid'' (masjid_doc now (next_oid s) body) s))
   \<and> (ObjectId (cm_owner_user_id body) = Some i
        \<and> (\<forall>u\<in>set (collection ''user'' s). \<not> has_id i u) \<longrightarrow>
      create_masjid now body s =
        (Inr [(''id'', PyStr (str_oid (next_oid s)))],
         with_inserted ''masjid'' (masjid_doc now (next_oid s) body) s))
   \<and> collection ''masjid'' (with_inserted ''masjid'' (masjid_doc now (next_oid s) body) s)
        = collection ''masjid'' s @ [masjid_doc now (next_oid s) body]
   \<and> collection ''user'' (with_inserted ''masjid'' (masjid_doc now (next_oid s) body) s)
        = collection ''user'' s"
  using create_masjid_invalid [of body now s] create_masjid_no_owner [of body i s now]
  by (simp add: collection_with_inserted)

text \<open>Both cases on a store with one user.\<close>

theorem create_masjid_insert_before_parse_witness:
  "ObjectId (cm_owner_user_id (owner_request ''nobody'')) = None
   \<and> fst (create_masjid 9 (owner_request ''nobody'') one_user_store)
       = Inl (HTTPException 400 ''Invalid id'')
   \<and> collection ''masjid'' (snd (create_masjid 9 (owner_request ''nobody'') one_user_store))
       = [masjid_doc 9 17 (owner_request ''nobody'')]
   \<and> ObjectId (cm_owner_user_id (owner_request ''000000000000000000000011'')) = Some 17
   \<and> fst (create_masjid 9 (owner_request ''000000000000000000000011'') one_user_store)
       = Inr [(''id'', PyStr (str_oid 17))]
   \<and> collection ''user'' (snd (create_masjid 9 (owner_request ''000000000000000000000011'') one_user_store))
       = collection ''user'' one_user_store"
proof -
  have a: "ObjectId (cm_owner_user_id (owner_request ''nobody'')) = None"
    by (simp add: owner_request_def ObjectId_def)
  have b: "ObjectId (cm_owner_user_id (owner_request ''000000000000000000000011'')) = Some 17"
    by (simp add: owner_request_def ObjectId_def digit_val_def)
  have nf: "\<forall>u\<in>set (collection ''user'' one_user_store). \<not> has_id 17 u"
    by (simp add: one_user_store_def collection_def has_id_def)
  have n: "next_oid one_user_store = 17" "collection ''masjid'' one_user_store = []"
    by (simp_all add: one_user_store_def collection_def)
  note t1 = create_masjid_insert_before_parse [where body = "owner_request ''nobody''"
      and now = 9 and s = one_user_store and i = 0]
  note t2 = create_masjid_insert_before_parse [where body = "owner_request ''000000000000000000000011''"
      and now = 9 and s = one_user_store and i = 17]
  have r1: "create_masjid 9 (owner_request ''nobody'') one_user_store =
        (Inl (HTTPException 400 ''Invalid id''),
         with_inserted ''masjid'' (masjid_doc 9 17 (owner_request ''nobody'')) one_user_store)"
    using t1 a n by simp
  have r2: "create_masjid 9 (owner_request ''000000000000000000000011'') one_user_store =
        (Inr [(''id'', PyStr (str_oid 17))],
         with_inserted ''masjid'' (masjid_doc 9 17 (owner_request ''000000000000000000000011'')) one_user_store)"
    using t2 b nf n by simp
  show ?thesis
    unfolding r1 r2 using a b n by (simp add: collection_with_inserted)
qed

text \<open>Claim C6. The public landing endpoint returns data only when some project has the landing slug and \<open>is_public = true\<close>. When no project is public with that slug, which covers both a slug that matches a private project and a slug that matches nothing, the answer is the same 404 \<open>Project not found\<close>.\<close>

theorem public_project_private_is_not_found:
  "(public_project slug s = Inr r \<longrightarrow>
      (\<exists>p\<in>set (collection ''project'' s). is_public_with_slug slug p))
   \<and> ((\<forall>p\<in>set (collection ''project'' s). \<not> is_public_with_slug slug p) \<longrightarrow>
        public_project slug s = Inl (HTTPException 404 ''Project not found''))"
  using public_project_privacy [of slug s] by blast

text \<open>A private slug, an unknown slug and a public slug.\<close>

theorem public_project_private_is_not_found_witness:
  "public_project ''roof'' landing_example = Inl (HTTPException 404 ''Project not found'')
   \<and> public_project ''none'' landing_example = Inl (HTTPException 404 ''Project not found'')
   \<and> public_project ''well'' landing_example =
       Inr [(''project'', PyDict [(''title'', PyStr ''Well''), (''is_public'', PyBool True),
                                  (''landing_slug'', PyStr ''well''), (''id'', PyStr (str_oid 2))]),
            (''recent_contributions'', PyList []), (''total'', PyNum 0)]
   \<and> (\<exists>p\<in>set (collection ''project'' landing_example). is_public_with_slug ''well'' p)"
proof -
  have priv: "\<forall>p\<in>set (collection ''project'' landing_example). \<not> is_public_with_slug ''roof'' p"
    by (simp add: landing_example_def collection_def is_public_with_slug_def)
  have none: "\<forall>p\<in>set (collection ''project'' landing_example). \<not> is_public_with_slug ''none'' p"
    by (simp add: landing_example_def collection_def is_public_with_slug_def)
  have pub: "public_project ''well'' landing_example =
       Inr [(''project'', PyDict [(''title'', PyStr ''Well''), (''is_public'', PyBool True),
                                  (''landing_slug'', PyStr ''well''), (''id'', PyStr (str_oid 2))]),
            (''recent_contributions'', PyList []), (''total'', PyNum 0)]"
    by (simp add: public_project_def landing_example_def collection_def matches_def
        rename_id_def py_str_def find_all_def sort_created_desc_def)
  show ?thesis
    using public_project_private_is_not_found [where slug = "''roof''" and s = landing_example and r = "[]"]
      public_project_private_is_not_found [where slug = "''none''" and s = landing_example and r = "[]"]
      public_project_private_is_not_found [where slug = "''well''" and s = landing_example
        and r = "[(''project'', PyDict [(''title'', PyStr ''Well''), (''is_public'', PyBool True),
                                  (''landing_slug'', PyStr ''well''), (''id'', PyStr (str_oid 2))]),
            (''recent_contributions'', PyList []), (''total'', PyNum 0)]"]
      priv none pub
    by simp
qed

subsection \<open>Login, contributions and projects: claims C9, C2, C4 and C3\<close>

lemma construct_User:
  "construct User [(''mobile'', PyStr m), (''otp'', PyStr m)] =
     Inr [(''mobile'', PyStr m), (''name'', PyNone), (''otp'', PyStr m),
          (''roles'', PyDict []), (''is_super_admin'', PyBool False)]"
  by (simp add: construct_def User_def)

lemma find_one_mobile_None:
  assumes "\<forall>u\<in>set ds. map_of u ''mobile'' \<noteq> Some (PyStr m)"
  shows "find_one [(''mobile'', PyStr m)] ds = None"
  using assms by (simp add: find_one_None_iff matches_def)

lemma find_one_new_id:
  assumes "\<forall>u\<in>set ds. \<not> has_id i u" and "has_id i d"
  shows "find_one [(''_id'', PyOid i)] (ds @ [d]) = Some d"
proof -
  have "find_one [(''_id'', PyOid i)] ds = None"
    using assms(1) by (simp add: find_one_None_iff matches_id)
  then show ?thesis using assms(2) by (simp add: find_one_append matches_id)
qed

lemma login_check_user_doc:
  "login_otp req \<noteq> m \<Longrightarrow>
   login_check req (Some (user_doc now i m)) = Inl (HTTPException 401 ''Invalid OTP'')"
  by (simp add: login_check_def user_doc_def dict_get_def py_or_def)

lemma login_new_mobile:
  assumes "\<forall>u\<in>set (collection ''user'' s). map_of u ''mobile'' \<noteq> Some (PyStr (login_mobile req))"
    and "login_otp req \<noteq> login_mobile req"
    and "\<forall>u\<in>set (collection ''user'' s). \<not> has_id (next_oid s) u"
    and "next_oid s < 16 ^ 24"
  shows "login now req s =
          (Inl (HTTPException 401 ''Invalid OTP''),
           with_inserted ''user'' (user_doc now (next_oid s) (login_mobile req)) s)"
proof -
  let ?d = "user_doc now (next_oid s) (login_mobile req)"
  have f: "find_one [(''mobile'', PyStr (login_mobile req))] (collection ''user'' s) = None"
    using assms(1) by (rule find_one_mobile_None)
  have o: "ObjectId (str_oid (next_oid s)) = Some (next_oid s)"
    using assms(4) by (rule ObjectId_str_oid)
  have "has_id (next_oid s) ?d" by (simp add: has_id_def user_doc_def)
  then have g: "find_one [(''_id'', PyOid (next_oid s))] (collection ''user'' s @ [?d]) = Some ?d"
    using assms(3) by (intro find_one_new_id)
  show ?thesis
    unfolding login_def Let_def f construct_User create_document_eq
    using g login_check_user_doc [OF assms(2), of now "next_oid s"]
    by (simp add: o collection_with_inserted user_doc_def)
qed

lemma with_inserted_changes: "with_inserted name d s \<noteq> s"
proof
  assume "with_inserted name d s = s"
  then have "next_oid (with_inserted name d s) = next_oid s" by simp
  then show False by (simp add: with_inserted_def)
qed

lemma construct_Contribution_invalid:
  "ac_amount b \<le> 0 \<Longrightarrow> construct Contribution (AddContribution_dump b) = Inl (Uncaught ''ValidationError'')"
  by (simp add: construct_def Contribution_def AddContribution_dump_def case_opt_str)

lemma construct_Contribution_valid:
  assumes "0 < ac_amount b" and "ac_mode b \<in> {''direct'', ''online'', ''gpay''}"
  shows "construct Contribution (AddContribution_dump b) =
     Inr [(''project_id'', PyStr (ac_project_id b)),
          (''user_id'', opt_str (ac_user_id b)),
          (''mobile'', opt_str (ac_mobile b)),
          (''name'', opt_str (ac_name b)),
          (''amount'', PyNum (ac_amount b)),
          (''mode'', PyStr (ac_mode b)),
          (''paid_at'', opt_date (ac_paid_at b)),
          (''note'', opt_str (ac_note b)),
          (''proof_url'', opt_str (ac_proof_url b)),
          (''approved'', PyBool True)]"
  using assms
  by (simp add: construct_def Contribution_def AddContribution_dump_def PaymentMode_def
      case_opt_str case_opt_date)

lemma add_contribution_invalid:
  "ac_amount b \<le> 0 \<Longrightarrow> add_contribution now b s = (Inl (Uncaught ''ValidationError''), s)"
  by (simp add: add_contribution_def construct_Contribution_invalid)

lemma add_contribution_valid:
  assumes "0 < ac_amount b" and "ac_mode b \<in> {''direct'', ''online'', ''gpay''}"
  shows "add_contribution now b s =
     (Inr [(''id'', PyStr (str_oid (next_oid s)))],
      with_inserted ''contribution'' (contribution_doc now (next_oid s) b) s)"
  by (simp add: add_contribution_def construct_Contribution_valid [OF assms]
      create_document_eq contribution_doc_def)

lemma construct_Project_no_frequencies:
  "construct Project (CreateProject_dump (b\<lparr> cp_allowed_frequencies := None \<rparr>)) =
     Inl (Uncaught ''ValidationError'')"
  by (simp add: construct_def Project_def CreateProject_dump_def case_opt_str opt_strs_def)

text \<open>Claim C9. A login whose mobile matches no stored user and whose \<open>otp\<close> differs from that mobile first inserts a new user document, with \<open>otp\<close> equal to the mobile, and only then fails with 401 \<open>Invalid OTP\<close>: the store is changed although the request fails. The store is one whose next identifier is unused among the users and fits the identifier format, as in every store the service has built.\<close>

theorem login_provisions_then_rejects:
  assumes "\<forall>u\<in>set (collection ''user'' s). map_of u ''mobile'' \<noteq> Some (PyStr (login_mobile req))"
    and "login_otp req \<noteq> login_mobile req"
    and "\<forall>u\<in>set (collection ''user'' s). \<not> has_id (next_oid s) u"
    and "next_oid s < 16 ^ 24"
  shows "login now req s =
          (Inl (HTTPException 401 ''Invalid OTP''),
           with_inserted ''user'' (user_doc now (next_oid s) (login_mobile req)) s)
       \<and> collection ''user'' (with_inserted ''user'' (user_doc now (next_oid s) (login_mobile req)) s)
           = collection ''user'' s @ [user_doc now (next_oid s) (login_mobile req)]
       \<and> map_of (user_doc now (next_oid s) (login_mobile req)) ''otp'' = Some (PyStr (login_mobile req))
       \<and> with_inserted ''user'' (user_doc now (next_oid s) (login_mobile req)) s \<noteq> s"
  using login_new_mobile [OF assms, of now]
  by (simp add: collection_with_inserted with_inserted_changes user_doc_def)

text \<open>A wrong OTP for an unknown mobile on a store with one user.\<close>

theorem login_provisions_then_rejects_witness:
  "fst (login 8 \<lparr> login_mobile = ''5550002'', login_otp = ''0000'' \<rparr> one_user_store)
     = Inl (HTTPException 401 ''Invalid OTP'')
   \<and> collection ''user'' (snd (login 8 \<lparr> login_mobile = ''5550002'', login_otp = ''0000'' \<rparr> one_user_store))
     = collection ''user'' one_user_store @ [user_doc 8 17 ''5550002'']"
proof -
  let ?req = "\<lparr> login_mobile = ''5550002'', login_otp = ''0000'' \<rparr>"
  have a: "\<forall>u\<in>set (collection ''user'' one_user_store). map_of u ''mobile'' \<noteq> Some (PyStr (login_mobile ?req))"
    by (simp add: one_user_store_def collection_def)
  have b: "login_otp ?req \<noteq> login_mobile ?req" by simp
  have c: "\<forall>u\<in>set (collection ''user'' one_user_store). \<not> has_id (next_oid one_user_store) u"
    by (simp add: one_user_store_def collection_def has_id_def)
  have d: "next_oid one_user_store < 16 ^ 24" by (simp add: one_user_store_def)
  have n: "next_oid one_user_store = 17" by (simp add: one_user_store_def)
  show ?thesis
    using login_provisions_then_rejects [OF a b c d, of 8] by (simp add: n)
qed

text \<open>Claim C2, as stated, fails: a contribution with \<open>amount = 0\<close> is refused by the \<open>Contribution\<close> constructor inside the handler, and the resulting \<open>ValidationError\<close> is not caught, so the request ends as a server fault (status 500) and not as a client error.\<close>

theorem add_contribution_zero_is_server_fault:
  "add_contribution 3 (cash_gift 0) empty_store = (Inl (Uncaught ''ValidationError''), empty_store)
   \<and> \<not> is_client_error (fst (add_contribution 3 (cash_gift 0) empty_store))
   \<and> is_server_fault (fst (add_contribution 3 (cash_gift 0) empty_store))"
  by (simp add: add_contribution_invalid cash_gift_def is_client_error_def is_server_fault_def)

text \<open>Claim C2, amended. An add-contribution request with \<open>amount = 0\<close> or \<open>amount < 0\<close> fails with an uncaught validation error, which is a server fault, and stores nothing; a request with \<open>amount = 0.01\<close> and a valid mode succeeds, stores the record and returns its identifier.\<close>

theorem add_contribution_amount_boundary:
  "(ac_amount body \<le> 0 \<longrightarrow>
      add_contribution now body s = (Inl (Uncaught ''ValidationError''), s)
      \<and> is_server_fault (fst (add_contribution now body s)))
   \<and> (ac_amount body = 1 / 100 \<and> ac_mode body \<in> {''direct'', ''online'', ''gpay''} \<longrightarrow>
      add_contribution now body s =
        (Inr [(''id'', PyStr (str_oid (next_oid s)))],
         with_inserted ''contribution'' (contribution_doc now (next_oid s) body) s))"
  using add_contribution_invalid [of body now s] add_contribution_valid [of body now s]
  by (auto simp: is_server_fault_def)

text \<open>A negative amount and the amount 0.01 on the empty store.\<close>

theorem add_contribution_amount_boundary_witness:
  "add_contribution 3 (cash_gift (- 1)) empty_store = (Inl (Uncaught ''ValidationError''), empty_store)
   \<and> add_contribution 3 (cash_gift (1 / 100)) empty_store =
        (Inr [(''id'', PyStr (str_oid 0))],
         with_inserted ''contribution'' (contribution_doc 3 0 (cash_gift (1 / 100))) empty_store)"
proof -
  have a: "ac_amount (cash_gift (- 1)) \<le> 0" by (simp add: cash_gift_def)
  have b: "ac_amount (cash_gift (1 / 100)) = 1 / 100" by (simp add: cash_gift_def)
  have c: "ac_mode (cash_gift (1 / 100)) \<in> {''direct'', ''online'', ''gpay''}"
    by (simp add: cash_gift_def)
  have n: "next_oid empty_store = 0" by (simp add: empty_store_def)
  have r1: "add_contribution 3 (cash_gift (- 1)) empty_store = (Inl (Uncaught ''ValidationError''), empty_store)"
    using add_contribution_amount_boundary [where body = "cash_gift (- 1)" and now = 3 and s = empty_store] a
    by blast
  have r2: "add_contribution 3 (cash_gift (1 / 100)) empty_store =
        (Inr [(''id'', PyStr (str_oid (next_oid empty_store)))],
         with_inserted ''contribution'' (contribution_doc 3 (next_oid empty_store) (cash_gift (1 / 100))) empty_store)"
    using add_contribution_amount_boundary [where body = "cash_gift (1 / 100)" and now = 3 and s = empty_store] b c
    by blast
  show ?thesis using r1 r2 by (simp add: n)
qed

text \<open>Claim C4 fails on the code. A create-project request that omits \<open>allowed_frequencies\<close> reaches the \<open>Project\<close> constructor with \<open>allowed_frequencies = None\<close>, because \<open>model_dump()\<close> lists every field; the constructor refuses \<open>None\<close> for a list field, and the request ends in an uncaught \<open>ValidationError\<close> with nothing stored. The default of all four frequencies, which the schema declares, applies only when the keyword is missing (last conjunct).\<close>

theorem create_project_without_frequencies_fails:
  "create_project now (body\<lparr> cp_allowed_frequencies := None \<rparr>) s = (Inl (Uncaught ''ValidationError''), s)
   \<and> is_server_fault (fst (create_project now (body\<lparr> cp_allowed_frequencies := None \<rparr>) s))
   \<and> map_option (\<lambda>m. map_of m ''allowed_frequencies'')
        (validate Project [(''masjid_id'', PyStr ''m1''), (''title'', PyStr ''Well'')])
       = Some (Some (PyList [PyStr ''one_time'', PyStr ''weekly'', PyStr ''monthly'', PyStr ''yearly'']))"
proof -
  have a: "create_project now (body\<lparr> cp_allowed_frequencies := None \<rparr>) s = (Inl (Uncaught ''ValidationError''), s)"
    by (simp add: create_project_def construct_Project_no_frequencies)
  have b: "map_option (\<lambda>m. map_of m ''allowed_frequencies'')
        (validate Project [(''masjid_id'', PyStr ''m1''), (''title'', PyStr ''Well'')])
       = Some (Some (PyList [PyStr ''one_time'', PyStr ''weekly'', PyStr ''monthly'', PyStr ''yearly'']))"
    by (simp add: Project_def)
  show ?thesis unfolding a using b by (simp add: is_server_fault_def)
qed

text \<open>Claim C3 fails on the code. Join-project never constructs a \<open>Participant\<close>: a pledge of \<open>-5\<close> with the frequency \<open>daily\<close>, which the \<open>Participant\<close> schema refuses (first conjunct), is accepted and written to the store.\<close>

theorem join_project_accepts_invalid_pledge:
  "construct Participant (JoinProject_dump bad_pledge) = Inl (Uncaught ''ValidationError'')
   \<and> fst (join_project bad_pledge empty_store) = Inr [(''ok'', PyBool True)]
   \<and> collection ''participant'' (snd (join_project bad_pledge empty_store)) =
       [[(''_id'', PyOid 0), (''project_id'', PyStr ''p1''), (''user_id'', PyStr ''u1''),
         (''pledge_amount'', PyNum (- 5)), (''frequency'', PyStr ''daily''),
         (''preferred_mode'', PyNone)]]"
  by (simp add: construct_def Participant_def JoinProject_dump_def bad_pledge_def
      join_project_def update_one_def empty_store_def collection_def opt_num_def opt_str_def
      Frequency_def PaymentMode_def)

subsection \<open>Joining a project and the landing display: claims C7 and C5\<close>

lemma apply_set_join:
  "apply_set (map (\<lambda>(k, v). ([k], v)) (JoinProject_dump b)) d = Some (joined b d)"
  by (simp add: JoinProject_dump_def joined_def)

lemma matches_pair:
  "matches [(''project_id'', PyStr p), (''user_id'', PyStr u)] d = is_pair p u d"
  by (simp add: matches_def is_pair_def)

lemma is_pair_joined:
  "is_pair p u (joined b d) \<longleftrightarrow> p = jp_project_id b \<and> u = jp_user_id b"
  by (auto simp: is_pair_def joined_def map_of_dict_set)

lemma joined_fields:
  "map_of (joined b d) ''pledge_amount'' = Some (opt_num (jp_pledge_amount b))"
  "map_of (joined b d) ''frequency'' = Some (opt_str (jp_frequency b))"
  "map_of (joined b d) ''preferred_mode'' = Some (opt_str (jp_preferred_mode b))"
  by (simp_all add: joined_def map_of_dict_set)

lemma update_first_total:
  assumes "\<And>d. apply_set us d = Some (g d)"
  shows "update_first flt us ds =
           Some (if list_ex (matches flt) ds then 1 else 0, update_first_with (matches flt) g ds)"
  by (induction ds) (simp_all add: assms)

lemma update_first_with_none:
  "\<not> list_ex P ds \<Longrightarrow> update_first_with P g ds = ds"
  by (induction ds) auto

lemma filter_update_first_with_same:
  assumes "\<And>d. P (g d)"
  shows "filter P (update_first_with P g ds) =
           (case filter P ds of [] \<Rightarrow> [] | d # r \<Rightarrow> g d # r)"
  by (induction ds) (auto simp: assms split: list.splits)

lemma filter_update_first_with_other:
  assumes "\<And>d. \<not> Q (g d)" and "\<And>d. P d \<Longrightarrow> \<not> Q d"
  shows "filter Q (update_first_with P g ds) = filter Q ds"
  by (induction ds) (auto simp: assms)

lemma join_project_result:
  "join_project b s =
     (Inr [(''ok'', PyBool True)],
      if list_ex (is_pair (jp_project_id b) (jp_user_id b)) (collection ''participant'' s)
      then s\<lparr> colls := (colls s)(''participant'' :=
                update_first_with (is_pair (jp_project_id b) (jp_user_id b)) (joined b)
                  (collection ''participant'' s)) \<rparr>
      else with_inserted ''participant''
             (joined b [(''_id'', PyOid (next_oid s)),
                        (''project_id'', PyStr (jp_project_id b)),
                        (''user_id'', PyStr (jp_user_id b))]) s)"
proof -
  let ?flt = "[(''project_id'', PyStr (jp_project_id b)), (''user_id'', PyStr (jp_user_id b))]"
  let ?us = "map (\<lambda>(k, v). ([k], v)) (JoinProject_dump b)"
  have m: "matches ?flt = is_pair (jp_project_id b) (jp_user_id b)"
    by (rule ext) (rule matches_pair)
  have u: "update_first ?flt ?us (colls s ''participant'') =
      Some (if list_ex (is_pair (jp_project_id b) (jp_user_id b)) (colls s ''participant'') then 1 else 0,
            update_first_with (is_pair (jp_project_id b) (jp_user_id b)) (joined b) (colls s ''participant''))"
    using update_first_total [of ?us "joined b" ?flt "colls s ''participant''"]
    by (simp only: apply_set_join m)
  show ?thesis
    unfolding join_project_def update_one_def u
    by (simp add: apply_set_join collection_def with_inserted_def)
qed

lemma pair_records_join_same:
  "pair_records (jp_project_id b) (jp_user_id b) (snd (join_project b s)) =
     (case pair_records (jp_project_id b) (jp_user_id b) s of
        [] \<Rightarrow> [joined b [(''_id'', PyOid (next_oid s)),
                          (''project_id'', PyStr (jp_project_id b)),
                          (''user_id'', PyStr (jp_user_id b))]]
      | d # r \<Rightarrow> joined b d # r)"
proof (cases "list_ex (is_pair (jp_project_id b) (jp_user_id b)) (collection ''participant'' s)")
  case True
  then have "filter (is_pair (jp_project_id b) (jp_user_id b)) (collection ''participant'' s) \<noteq> []"
    by (simp add: list_ex_iff filter_empty_conv)
  with True show ?thesis
    by (simp add: join_project_result pair_records_def collection_def
        filter_update_first_with_same is_pair_joined split: list.splits)
next
  case False
  then have "filter (is_pair (jp_project_id b) (jp_user_id b)) (collection ''participant'' s) = []"
    by (simp add: list_ex_iff filter_empty_conv)
  with False show ?thesis
    by (simp add: join_project_result pair_records_def collection_with_inserted is_pair_joined)
qed

lemma pair_records_join_other:
  assumes "(p, u) \<noteq> (jp_project_id b, jp_user_id b)"
  shows "pair_records p u (snd (join_project b s)) = pair_records p u s"
proof -
  have a: "\<And>d. \<not> is_pair p u (joined b d)"
    using assms by (simp add: is_pair_joined)
  have c: "\<And>d. is_pair (jp_project_id b) (jp_user_id b) d \<Longrightarrow> \<not> is_pair p u d"
    using assms by (auto simp: is_pair_def)
  show ?thesis
    by (simp add: join_project_result pair_records_def collection_def with_inserted_def
        filter_update_first_with_other [where Q = "is_pair p u"
          and P = "is_pair (jp_project_id b) (jp_user_id b)" and g = "joined b", OF a c] a)
qed

text \<open>Join-project keeps the participant records of every pair at most one; on the empty store there is none. So every store that the service builds has at most one record for each pair.\<close>

lemma join_project_keeps_pairs_unique:
  assumes "length (pair_records p u s) \<le> 1"
  shows "length (pair_records p u (snd (join_project b s))) \<le> 1"
proof (cases "(p, u) = (jp_project_id b, jp_user_id b)")
  case True
  then show ?thesis
    using assms pair_records_join_same [of b s] by (auto split: list.splits)
next
  case False
  then show ?thesis using assms by (simp add: pair_records_join_other)
qed

lemma pair_records_empty_store: "pair_records p u empty_store = []"
  by (simp add: pair_records_def collection_def empty_store_def)

text \<open>Claim C7. On a store with at most one participant record for the pair, as in every store the service has built, two join requests for the same pair both succeed and leave exactly one record for the pair, whose \<open>pledge_amount\<close>, \<open>frequency\<close> and \<open>preferred_mode\<close> are those of the second request, also where the second request leaves a field out: nothing of the first request is merged in.\<close>

theorem rejoin_overwrites:
  assumes "jp_project_id b2 = jp_project_id b1" and "jp_user_id b2 = jp_user_id b1"
    and "length (pair_records (jp_project_id b1) (jp_user_id b1) s) \<le> 1"
  shows "fst (join_project b1 s) = Inr [(''ok'', PyBool True)]
     \<and> fst (join_project b2 (snd (join_project b1 s))) = Inr [(''ok'', PyBool True)]
     \<and> (\<exists>d. pair_records (jp_project_id b1) (jp_user_id b1)
               (snd (join_project b2 (snd (join_project b1 s)))) = [d]
           \<and> map_of d ''pledge_amount'' = Some (opt_num (jp_pledge_amount b2))
           \<and> map_of d ''frequency'' = Some (opt_str (jp_frequency b2))
           \<and> map_of d ''preferred_mode'' = Some (opt_str (jp_preferred_mode b2)))"
proof -
  let ?p = "jp_project_id b1" and ?u = "jp_user_id b1"
  let ?s1 = "snd (join_project b1 s)"
  obtain x where x: "pair_records ?p ?u ?s1 = [x]"
    using assms(3) pair_records_join_same [of b1 s]
    by (cases "pair_records ?p ?u s") (auto split: list.splits)
  have "pair_records ?p ?u (snd (join_project b2 ?s1)) = [joined b2 x]"
    using pair_records_join_same [of b2 ?s1] x assms(1,2) by simp
  then show ?thesis
    by (simp add: join_project_result joined_fields)
qed

text \<open>The example of the specification: a pledge of 100 monthly, then 200 weekly, on the empty store.\<close>

theorem rejoin_overwrites_witness:
  "fst (join_project (pledge 200 ''weekly'') (snd (join_project (pledge 100 ''monthly'') empty_store)))
     = Inr [(''ok'', PyBool True)]
   \<and> collection ''participant''
       (snd (join_project (pledge 200 ''weekly'') (snd (join_project (pledge 100 ''monthly'') empty_store))))
     = [[(''_id'', PyOid 0), (''project_id'', PyStr ''p1''), (''user_id'', PyStr ''u1''),
         (''pledge_amount'', PyNum 200), (''frequency'', PyStr ''weekly''),
         (''preferred_mode'', PyNone)]]
   \<and> (\<exists>d. pair_records ''p1'' ''u1''
             (snd (join_project (pledge 200 ''weekly'') (snd (join_project (pledge 100 ''monthly'') empty_store))))
             = [d]
          \<and> map_of d ''pledge_amount'' = Some (PyNum 200)
          \<and> map_of d ''frequency'' = Some (PyStr ''weekly''))"
proof -
  have a: "jp_project_id (pledge 200 ''weekly'') = jp_project_id (pledge 100 ''monthly'')"
    and b: "jp_user_id (pledge 200 ''weekly'') = jp_user_id (pledge 100 ''monthly'')"
    by (simp_all add: pledge_def)
  have c: "length (pair_records (jp_project_id (pledge 100 ''monthly'')) (jp_user_id (pledge 100 ''monthly'')) empty_store) \<le> 1"
    by (simp add: pair_records_empty_store)
  have e: "collection ''participant''
       (snd (join_project (pledge 200 ''weekly'') (snd (join_project (pledge 100 ''monthly'') empty_store))))
     = [[(''_id'', PyOid 0), (''project_id'', PyStr ''p1''), (''user_id'', PyStr ''u1''),
         (''pledge_amount'', PyNum 200), (''frequency'', PyStr ''weekly''),
         (''preferred_mode'', PyNone)]]"
    by (simp add: join_project_def update_one_def JoinProject_dump_def pledge_def empty_store_def
        collection_def matches_def opt_num_def opt_str_def)
  have n: "jp_project_id (pledge 100 ''monthly'') = ''p1''" "jp_user_id (pledge 100 ''monthly'') = ''u1''"
    "jp_pledge_amount (pledge 200 ''weekly'') = Some 200" "jp_frequency (pledge 200 ''weekly'') = Some ''weekly''"
    by (simp_all add: pledge_def)
  have t: "fst (join_project (pledge 200 ''weekly'') (snd (join_project (pledge 100 ''monthly'') empty_store)))
       = Inr [(''ok'', PyBool True)]
     \<and> (\<exists>d. pair_records ''p1'' ''u1''
             (snd (join_project (pledge 200 ''weekly'') (snd (join_project (pledge 100 ''monthly'') empty_store))))
             = [d]
          \<and> map_of d ''pledge_amount'' = Some (PyNum 200)
          \<and> map_of d ''frequency'' = Some (PyStr ''weekly''))"
    using rejoin_overwrites [OF a b c] unfolding n by (auto simp: opt_num_def opt_str_def)
  show ?thesis using t e by blast
qed

text \<open>Claim C5 fails on the code. A stored contribution always has the key \<open>mobile\<close>, with the value null when the request gave none, so \<open>c.get("mobile", "Guest")\<close> returns null and never the default: the landing page lists a contribution that has neither name nor mobile with the name null, not \<open>Guest\<close>. The \<open>paid_at\<close> entry does fall back to the creation time.\<close>

theorem guest_contribution_displays_null_name:
  "recent_contributions (public_project ''well'' guest_store) =
     Some (PyList [PyDict [(''name'', PyNone), (''amount'', PyNum 25), (''paid_at'', PyDate 2)]])
   \<and> map_of (display_entry (contribution_doc 2 1 guest_gift)) ''name'' = Some PyNone"
proof -
  have s: "collection ''project'' guest_store =
             [[(''_id'', PyOid 0), (''masjid_id'', PyStr ''m1''), (''title'', PyStr ''Well''),
               (''description'', PyNone), (''is_public'', PyBool True),
               (''landing_slug'', PyStr ''well''), (''gpay_url'', PyNone), (''gpay_upi'', PyNone),
               (''gpay_qr_image'', PyNone), (''allowed_frequencies'', PyList [PyStr ''monthly'']),
               (''created_at'', PyDate 1)]]"
    "collection ''contribution'' guest_store = [contribution_doc 2 1 guest_gift]"
    by (simp_all add: guest_store_def add_contribution_def create_project_def construct_def
        Contribution_def Project_def CreateProject_dump_def AddContribution_dump_def
        project_request_def guest_gift_def create_document_def empty_store_def collection_def
        contribution_doc_def opt_str_def opt_strs_def opt_date_def Frequency_def PaymentMode_def)
  have d: "map_of (display_entry (contribution_doc 2 1 guest_gift)) ''name'' = Some PyNone"
    by (simp add: display_entry_def contribution_doc_def guest_gift_def dict_get_def
        dict_get_or_def py_or_def opt_str_def)
  have f: "round64 25 = FNum 25"
    by (simp add: float_eval)
  have r: "recent_contributions (public_project ''well'' guest_store) =
     Some (PyList [PyDict [(''name'', PyNone), (''amount'', PyNum 25), (''paid_at'', PyDate 2)]])"
    by (simp add: recent_contributions_def public_project_def s matches_def rename_id_def
        py_str_def find_all_def sort_created_desc_def contribution_doc_def guest_gift_def
        dict_get_def dict_get_or_def py_float_def display_entry_def py_or_def
        opt_str_def opt_date_def f)
  show ?thesis using r d by simp
qed

subsection \<open>Invariants of the write paths\<close>

lemma construct_Contribution_bad_mode:
  "ac_mode b \<notin> {''direct'', ''online'', ''gpay''} \<Longrightarrow>
   construct Contribution (AddContribution_dump b) = Inl (Uncaught ''ValidationError'')"
  by (simp add: construct_def Contribution_def AddContribution_dump_def PaymentMode_def
      case_opt_str)

lemma add_contribution_store:
  "snd (add_contribution now b s) =
     (if 0 < ac_amount b \<and> ac_mode b \<in> {''direct'', ''online'', ''gpay''}
      then with_inserted ''contribution'' (contribution_doc now (next_oid s) b) s
      else s)"
proof (cases "0 < ac_amount b")
  case True
  show ?thesis
  proof (cases "ac_mode b \<in> {''direct'', ''online'', ''gpay''}")
    case True
    with \<open>0 < ac_amount b\<close> show ?thesis by (simp add: add_contribution_valid)
  next
    case False
    then show ?thesis
      by (simp add: add_contribution_def construct_Contribution_bad_mode)
  qed
next
  case False
  then show ?thesis by (simp add: add_contribution_invalid)
qed

text \<open>Add-contribution and add-expense, the only writers of the two ledger collections, store the amount of the request: when the amounts of the requests are finite floats, so are the stored ones, and the hypothesis of the ledger theorem holds in every store built from the empty one.\<close>

lemma add_contribution_keeps_numeric:
  assumes "list_all numeric_amount (collection ''contribution'' s)" and "is_double (ac_amount b)"
  shows "list_all numeric_amount (collection ''contribution'' (snd (add_contribution now b s)))"
  using assms
  by (simp add: add_contribution_store collection_with_inserted numeric_amount_def
      contribution_doc_def)

lemma add_expense_store:
  "snd (add_expense now b s) =
     (if 0 < ae_amount b
      then with_inserted ''expense'' (expense_doc now (next_oid s) b) s
      else s)"
  by (simp add: add_expense_def construct_def Expense_def AddExpense_dump_def
      case_opt_str case_opt_date create_document_eq expense_doc_def)

lemma add_expense_keeps_numeric:
  assumes "list_all numeric_amount (collection ''expense'' s)" and "is_double (ae_amount b)"
  shows "list_all numeric_amount (collection ''expense'' (snd (add_expense now b s)))"
  using assms
  by (simp add: add_expense_store collection_with_inserted numeric_amount_def expense_doc_def)

lemma user_ids_below_fresh:
  "user_ids_below s \<Longrightarrow> \<forall>u\<in>set (collection ''user'' s). \<not> has_id (next_oid s) u"
  by (auto simp: user_ids_below_def has_id_def list_all_iff)

lemma user_ids_below_empty: "user_ids_below empty_store"
  by (simp add: user_ids_below_def empty_store_def collection_def)

lemma login_store:
  "snd (login now req s) = s \<or>
   snd (login now req s) = with_inserted ''user'' (user_doc now (next_oid s) (login_mobile req)) s"
  by (simp add: login_def Let_def construct_User create_document_eq user_doc_def
      split: option.splits)

lemma user_ids_below_with_inserted:
  assumes "user_ids_below s"
  shows "user_ids_below (with_inserted ''user'' (user_doc now (next_oid s) m) s)"
proof -
  have "\<And>u. (case map_of u ''_id'' of Some (PyOid i) \<Rightarrow> i < next_oid s | _ \<Rightarrow> True) \<Longrightarrow>
            (case map_of u ''_id'' of Some (PyOid i) \<Rightarrow> i < Suc (next_oid s) | _ \<Rightarrow> True)"
    by (auto split: option.splits pyval.splits)
  note step = this
  have n: "next_oid (with_inserted ''user'' (user_doc now (next_oid s) m) s) = Suc (next_oid s)"
    by (simp add: with_inserted_def)
  have d: "(case map_of (user_doc now (next_oid s) m) ''_id'' of
              Some (PyOid i) \<Rightarrow> i < Suc (next_oid s) | _ \<Rightarrow> True)"
    by (simp add: user_doc_def)
  show ?thesis
    unfolding user_ids_below_def n collection_with_inserted
    using assms step d by (simp add: user_ids_below_def list_all_iff)
qed

text \<open>Login, the only operation that inserts users, keeps their identifiers below the counter, so the next identifier is always unused among them.\<close>

lemma login_keeps_user_ids_below:
  assumes "user_ids_below s"
  shows "user_ids_below (snd (login now req s))"
  using login_store [of now req s] assms user_ids_below_with_inserted by metis

subsection \<open>The ledger in floating point: claim C1\<close>

lemma bit_length_pow2: "bit_length (2 ^ n) = Suc n"
proof (induction n)
  case 0
  show ?case by (simp add: bit_length.simps [of 1] bit_length.simps [of 0])
next
  case (Suc n)
  have "bit_length (2 ^ Suc n) = Suc (bit_length (2 ^ Suc n div 2))"
    by (subst bit_length.simps) simp
  with Suc show ?case by simp
qed

lemma ilog2_pow2: "ilog2 (2 ^ n) = int n"
proof -
  have "\<lfloor>(2::real) ^ n\<rfloor> = 2 ^ n" by simp
  then show ?thesis by (simp add: ilog2_def bit_length_pow2)
qed

lemma round_half_even_of_int: "round_half_even (of_int m) = m"
  by (simp add: round_half_even_def)

lemma pow2_pos: "0 < pow2 e"
  by (simp add: pow2_def)

text \<open>A power of two is a float up to \<open>2 ^ 1023\<close>; from \<open>2 ^ 1024\<close> on it rounds to infinity.\<close>

lemma round64_pow2: "round64 (2 ^ n) = (if 1024 \<le> n then FPosInf else FNum (2 ^ n))"
proof -
  let ?q = "max (int n - 52) (- 1074)"
  have q: "?q = int n - 52" by simp
  have d: "(2::real) ^ n / pow2 (int n - 52) = of_int (2 ^ 52)"
  proof (cases "52 \<le> n")
    case True
    then have "pow2 (int n - 52) = 2 ^ (n - 52)" by (simp add: pow2_def nat_diff_distrib')
    moreover have "(2::real) ^ n = 2 ^ (52 + (n - 52))"
      using True by simp
    ultimately show ?thesis by (simp only: power_add) simp
  next
    case False
    then have "pow2 (int n - 52) = 1 / 2 ^ (52 - n)" by (simp add: pow2_def nat_diff_distrib')
    moreover have "(2::real) ^ 52 = 2 ^ (n + (52 - n))"
      using False by simp
    ultimately show ?thesis by (simp only: power_add) simp
  qed
  have y: "of_int (round_half_even ((2::real) ^ n / pow2 (int n - 52))) * pow2 (int n - 52) = 2 ^ n"
  proof -
    have "pow2 (int n - 52) \<noteq> 0" using pow2_pos [of "int n - 52"] by simp
    then have "(2::real) ^ n = of_int (2 ^ 52) * pow2 (int n - 52)"
      using d by (simp add: field_simps)
    then show ?thesis unfolding d round_half_even_of_int by simp
  qed
  have "(2::real) ^ 1024 \<le> 2 ^ n \<longleftrightarrow> 1024 \<le> n"
    by (rule power_increasing_iff) simp
  moreover have "\<not> (2::real) ^ n \<le> - (2 ^ 1024)"
  proof -
    have "0 < (2::real) ^ n" and "0 < (2::real) ^ 1024" by (rule zero_less_power, simp)+
    then show ?thesis by linarith
  qed
  moreover have "(2::real) ^ n \<noteq> 0" by simp
  moreover have "\<bar>(2::real) ^ n\<bar> = 2 ^ n" by simp
  ultimately show ?thesis
    unfolding round64_def Let_def
    by (simp only: ilog2_pow2 q y if_False if_True split: if_splits)
qed

lemma bit_length_bounds:
  "0 < n \<Longrightarrow> 2 ^ bit_length n \<le> 2 * n \<and> n < 2 ^ bit_length n"
proof (induction n rule: bit_length.induct)
  case (1 n)
  have b: "bit_length n = Suc (bit_length (n div 2))"
    using "1.prems" by (subst bit_length.simps) simp
  show ?case
  proof (cases "n div 2 = 0")
    case True
    with "1.prems" have "n = 1" by presburger
    then show ?thesis by (simp add: bit_length.simps [of 1] bit_length.simps [of 0])
  next
    case False
    with "1.prems" have p: "0 < n div 2" by presburger
    have ih: "2 ^ bit_length (n div 2) \<le> 2 * (n div 2) \<and> n div 2 < 2 ^ bit_length (n div 2)"
      using "1.IH" "1.prems" p by simp
    have "2 * (n div 2) \<le> n" and "n \<le> 2 * (n div 2) + 1" by presburger+
    with ih show ?thesis unfolding b by simp
  qed
qed

text \<open>Every integer below \<open>2 ^ 53\<close> in magnitude is a float.\<close>

lemma round64_of_int:
  assumes "\<bar>n\<bar> < 2 ^ 53"
  shows "round64 (of_int n) = FNum (of_int n)"
proof (cases "n = 0")
  case True
  then show ?thesis by (simp add: round64_zero)
next
  case False
  define b where "b = bit_length \<bar>n\<bar>"
  have m: "0 < \<bar>n\<bar>" using False by simp
  have bb: "2 ^ b \<le> 2 * \<bar>n\<bar>" "\<bar>n\<bar> < 2 ^ b"
    using bit_length_bounds [OF m] by (simp_all add: b_def)
  have "(2::int) ^ b < 2 ^ 54" using bb(1) assms by simp
  then have "b < 54" by (rule power_less_imp_less_exp [rotated]) simp
  then have b53: "b \<le> 53" by simp
  have il: "ilog2 \<bar>of_int n\<bar> = int b - 1"
  proof -
    have "\<bar>of_int n :: real\<bar> = of_int \<bar>n\<bar>" by simp
    moreover have "(1::real) \<le> of_int \<bar>n\<bar>" using m by linarith
    ultimately show ?thesis by (simp add: ilog2_def b_def del: of_int_abs)
  qed
  have q: "max (int b - 1 - 52) (- 1074) = int b - 53" by simp
  have p: "pow2 (int b - 53) = 1 / 2 ^ (53 - b)"
    using b53 by (simp add: pow2_def nat_diff_distrib')
  have d: "of_int n / pow2 (int b - 53) = of_int (n * 2 ^ (53 - b))"
    by (simp add: p)
  have y: "of_int (round_half_even (of_int n / pow2 (int b - 53))) * pow2 (int b - 53) = of_int n"
    unfolding d round_half_even_of_int by (simp add: p)
  have r: "\<bar>of_int n :: real\<bar> < 2 ^ 53"
  proof -
    have "(of_int \<bar>n\<bar> :: real) < of_int (2 ^ 53)" using assms by (simp only: of_int_less_iff)
    then show ?thesis by simp
  qed
  have "\<not> (2::real) ^ 1024 \<le> of_int n" and "\<not> of_int n \<le> - ((2::real) ^ 1024)"
    using r by simp_all
  moreover have "(of_int n :: real) \<noteq> 0" using False by simp
  ultimately show ?thesis
    unfolding round64_def Let_def il q y by simp
qed

lemma round64_whole:
  assumes "x \<in> \<int>" and "\<bar>x\<bar> < 2 ^ 53"
  shows "round64 x = FNum x"
proof -
  from assms(1) obtain k where k: "x = of_int k" by (rule Ints_cases)
  have "(of_int \<bar>k\<bar> :: real) < of_int (2 ^ 53)" using assms(2) k by simp
  then have "\<bar>k\<bar> < 2 ^ 53" by (simp only: of_int_less_iff)
  from round64_of_int [OF this] show ?thesis by (simp only: k)
qed

lemma sum_list_whole: "\<forall>x\<in>set xs. x \<in> \<int> \<Longrightarrow> sum_list xs \<in> (\<int> :: real set)"
  by (induction xs) simp_all

text \<open>Adding whole, non-negative amounts in floating point is exact while the total stays below \<open>2 ^ 53\<close>.\<close>

lemma foldl_float_add_whole:
  assumes "\<forall>x\<in>set xs. 0 \<le> x \<and> x \<in> \<int>"
    and "0 \<le> t" and "t \<in> \<int>"
    and "t + sum_list xs < 2 ^ 53"
  shows "foldl float_add (FNum t) (map FNum xs) = FNum (t + sum_list xs)"
  using assms
proof (induction xs arbitrary: t)
  case Nil
  then show ?case by simp
next
  case (Cons x xs)
  have x: "0 \<le> x" "x \<in> \<int>" using Cons.prems(1) by simp_all
  have r: "0 \<le> sum_list xs" using Cons.prems(1) by (intro sum_list_nonneg) simp
  have w: "t + x \<in> \<int>" using x(2) Cons.prems(3) by simp
  have "\<bar>t + x\<bar> < 2 ^ 53" using Cons.prems(2,4) r x(1) by simp
  then have "float_add (FNum t) (FNum x) = FNum (t + x)"
    using round64_whole [OF w] by simp
  moreover have "foldl float_add (FNum (t + x)) (map FNum xs) = FNum (t + x + sum_list xs)"
    using Cons.prems x w by (intro Cons.IH) (simp_all add: add.assoc)
  ultimately show ?case by (simp add: add.assoc)
qed

text \<open>For whole, non-negative amounts whose totals stay below \<open>2 ^ 53\<close>, as in the example of the specification, the floating-point totals are the exact sums and the ledger always answers.\<close>

lemma project_ledger_whole_amounts:
  assumes "list_all numeric_amount (collection ''contribution'' s)"
    and "list_all numeric_amount (collection ''expense'' s)"
    and "\<forall>d\<in>set (filter (is_approved_for pid) (collection ''contribution'' s)).
           0 \<le> amount_of d \<and> of_int \<lfloor>amount_of d\<rfloor> = amount_of d"
    and "\<forall>d\<in>set (filter (is_for pid) (collection ''expense'' s)).
           0 \<le> amount_of d \<and> of_int \<lfloor>amount_of d\<rfloor> = amount_of d"
    and "sum_list (map amount_of (filter (is_approved_for pid) (collection ''contribution'' s))) < 2 ^ 53"
    and "sum_list (map amount_of (filter (is_for pid) (collection ''expense'' s))) < 2 ^ 53"
  shows "project_ledger pid s =
     Inr [(''contributed'', PyNum (sum_list (map amount_of (filter (is_approved_for pid) (collection ''contribution'' s))))),
          (''spent'', PyNum (sum_list (map amount_of (filter (is_for pid) (collection ''expense'' s))))),
          (''balance'', PyNum (sum_list (map amount_of (filter (is_approved_for pid) (collection ''contribution'' s)))
                               - sum_list (map amount_of (filter (is_for pid) (collection ''expense'' s)))))]"
proof -
  let ?cs = "map amount_of (filter (is_approved_for pid) (collection ''contribution'' s))"
  let ?es = "map amount_of (filter (is_for pid) (collection ''expense'' s))"
  have wc: "\<forall>x\<in>set ?cs. 0 \<le> x \<and> x \<in> \<int>" using assms(3) by auto
  have we: "\<forall>x\<in>set ?es. 0 \<le> x \<and> x \<in> \<int>" using assms(4) by auto
  have c: "float_sum ?cs = FNum (sum_list ?cs)"
    using foldl_float_add_whole [OF wc, of 0] assms(5) by (simp add: float_sum_def)
  have e: "float_sum ?es = FNum (sum_list ?es)"
    using foldl_float_add_whole [OF we, of 0] assms(6) by (simp add: float_sum_def)
  have "0 \<le> sum_list ?cs" using wc by (intro sum_list_nonneg) blast
  moreover have "0 \<le> sum_list ?es" using we by (intro sum_list_nonneg) blast
  ultimately have "\<bar>sum_list ?cs - sum_list ?es\<bar> < 2 ^ 53"
    using assms(5,6) by simp
  moreover have "sum_list ?cs - sum_list ?es \<in> \<int>"
    using wc we by (intro Ints_diff sum_list_whole) simp_all
  ultimately have b: "round64 (sum_list ?cs - sum_list ?es) = FNum (sum_list ?cs - sum_list ?es)"
    by (intro round64_whole)
  show ?thesis
    unfolding project_ledger_sums [OF assms(1,2)] c e by (simp add: b)
qed

lemma huge_pos: "0 < huge"
  by (simp add: huge_def)

lemma is_double_huge: "is_double huge"
  unfolding is_double_def huge_def by (simp only: round64_pow2) simp

lemma float_sum_huge: "float_sum [huge, huge] = FPosInf"
proof -
  have "huge + huge = 2 ^ 1024" by (simp add: huge_def)
  then have "float_add (FNum huge) (FNum huge) = FPosInf"
    by (simp only: float_add.simps round64_pow2) simp
  moreover have "float_add (FNum 0) (FNum huge) = FNum huge"
    using is_double_huge by (simp add: is_double_def)
  ultimately show ?thesis by (simp add: float_sum_def)
qed

lemma nearest_tenths:
  "round64 (1 / 10) = FNum (3602879701896397 / 2 ^ 55)"
  "round64 (2 / 10) = FNum (3602879701896397 / 2 ^ 54)"
  "round64 (3 / 10) = FNum (5404319552844595 / 2 ^ 54)"
  by (simp_all add: float_eval)

lemma tenths_are_doubles:
  "is_double (3602879701896397 / 2 ^ 55)"
  "is_double (3602879701896397 / 2 ^ 54)"
  "is_double (5404319552844595 / 2 ^ 54)"
  by (simp_all add: is_double_def float_eval)

lemma tenths_store_collections:
  "collection ''contribution'' tenths_store =
     [contribution_doc 1 0 (cash_gift (3602879701896397 / 2 ^ 55)),
      contribution_doc 2 1 (cash_gift (3602879701896397 / 2 ^ 54))]"
  "collection ''expense'' tenths_store = [expense_doc 3 2 (purchase (5404319552844595 / 2 ^ 54))]"
  by (simp_all add: tenths_store_def add_contribution_store add_expense_store cash_gift_def
      purchase_def collection_with_inserted with_inserted_def empty_store_def collection_def
      numeral_2_eq_2)

lemma huge_store_collections:
  "collection ''contribution'' huge_store =
     [contribution_doc 1 0 (cash_gift huge), contribution_doc 2 1 (cash_gift huge)]"
  "collection ''expense'' huge_store = []"
  by (simp_all add: huge_store_def add_contribution_store cash_gift_def huge_pos
      collection_with_inserted with_inserted_def empty_store_def collection_def)

text \<open>Claim C1, amended. On a store whose contribution and expense amounts are finite floats, the ledger of a project computes \<open>contributed\<close> as the floating-point sum, accumulated in store order, of the amounts of the contributions with that \<open>project_id\<close> and \<open>approved = true\<close>, \<open>spent\<close> likewise from the expenses with that \<open>project_id\<close>, and \<open>balance\<close> as the float nearest to \<open>contributed - spent\<close>. When the three are finite the request returns them; otherwise it fails with an uncaught \<open>ValueError\<close>. A contribution that is not approved is not in the sum.\<close>

theorem project_ledger_float_totals:
  assumes "list_all numeric_amount (collection ''contribution'' s)"
    and "list_all numeric_amount (collection ''expense'' s)"
  shows "project_ledger pid s =
     (case (float_sum (map amount_of (filter (is_approved_for pid) (collection ''contribution'' s))),
            float_sum (map amount_of (filter (is_for pid) (collection ''expense'' s)))) of
        (FNum c, FNum e) \<Rightarrow>
          (case round64 (c - e) of
             FNum b \<Rightarrow> Inr [(''contributed'', PyNum c), (''spent'', PyNum e), (''balance'', PyNum b)]
           | _ \<Rightarrow> Inl (Uncaught ''ValueError''))
      | _ \<Rightarrow> Inl (Uncaught ''ValueError''))"
  using assms by (rule project_ledger_sums)

text \<open>The example of the specification (approved contributions of 200 and 300, one of 1000 that is not approved, expenses of 100 and 50), and the store with two contributions of \<open>2 ^ 1023\<close>.\<close>

theorem project_ledger_float_totals_witness:
  "list_all numeric_amount (collection ''contribution'' ledger_example)
   \<and> list_all numeric_amount (collection ''expense'' ledger_example)
   \<and> project_ledger ''p1'' ledger_example =
       Inr [(''contributed'', PyNum 500), (''spent'', PyNum 150), (''balance'', PyNum 350)]
   \<and> list_all numeric_amount (collection ''contribution'' huge_store)
   \<and> list_all numeric_amount (collection ''expense'' huge_store)
   \<and> project_ledger ''p1'' huge_store = Inl (Uncaught ''ValueError'')"
proof -
  have d: "is_double 200" "is_double 1000" "is_double 300" "is_double 40"
    "is_double 100" "is_double 9" "is_double 50"
    by (simp_all add: is_double_def float_eval)
  have a: "list_all numeric_amount (collection ''contribution'' ledger_example)"
    by (simp add: ledger_example_def collection_def numeric_amount_def d)
  have b: "list_all numeric_amount (collection ''expense'' ledger_example)"
    by (simp add: ledger_example_def collection_def numeric_amount_def d)
  have c: "float_sum [200, 300] = FNum 500" "float_sum [100, 50] = FNum 150"
    "round64 350 = FNum 350"
    by (simp_all add: float_sum_def float_eval)
  have l: "project_ledger ''p1'' ledger_example =
       Inr [(''contributed'', PyNum 500), (''spent'', PyNum 150), (''balance'', PyNum 350)]"
    using project_ledger_float_totals [OF a b, of "''p1''"]
    by (simp add: ledger_example_def collection_def is_approved_for_def is_for_def
        amount_of_def c)
  have a': "list_all numeric_amount (collection ''contribution'' huge_store)"
    by (simp add: huge_store_collections numeric_amount_def contribution_doc_def cash_gift_def
        is_double_huge)
  have b': "list_all numeric_amount (collection ''expense'' huge_store)"
    by (simp add: huge_store_collections)
  have h: "project_ledger ''p1'' huge_store = Inl (Uncaught ''ValueError'')"
    using project_ledger_float_totals [OF a' b', of "''p1''"]
    by (simp add: huge_store_collections is_approved_for_def contribution_doc_def cash_gift_def
        amount_of_def float_sum_huge)
  show ?thesis using a b l a' b' h by simp
qed

text \<open>Claim C1, as stated, fails. The totals are accumulated in floating point. After contributions of \<open>0.1\<close> and \<open>0.2\<close> and an expense of \<open>0.3\<close>, \<open>contributed\<close> is \<open>0.30000000000000004\<close>, which is not the sum of the two stored amounts, and the balance is \<open>2 ^ - 54\<close>. After two contributions of \<open>2 ^ 1023\<close> the total is infinite, the JSON encoder refuses it, and the request ends as a server fault without any ledger. Both stores are built by the handlers from the empty store, and all their amounts are finite floats.\<close>

theorem project_ledger_rounds_and_overflows:
  "list_all numeric_amount (collection ''contribution'' tenths_store)
   \<and> list_all numeric_amount (collection ''expense'' tenths_store)
   \<and> project_ledger ''p1'' tenths_store =
       Inr [(''contributed'', PyNum (5404319552844596 / 2 ^ 54)),
            (''spent'', PyNum (5404319552844595 / 2 ^ 54)),
            (''balance'', PyNum (1 / 2 ^ 54))]
   \<and> sum_list (map amount_of (filter (is_approved_for ''p1'') (collection ''contribution'' tenths_store)))
       = 10808639105689191 / 2 ^ 55
   \<and> ledger_field ''contributed'' (project_ledger ''p1'' tenths_store) \<noteq>
       Some (PyNum (sum_list (map amount_of
         (filter (is_approved_for ''p1'') (collection ''contribution'' tenths_store)))))
   \<and> list_all numeric_amount (collection ''contribution'' huge_store)
   \<and> project_ledger ''p1'' huge_store = Inl (Uncaught ''ValueError'')
   \<and> is_server_fault (project_ledger ''p1'' huge_store)"
proof -
  have a: "list_all numeric_amount (collection ''contribution'' tenths_store)"
    using tenths_are_doubles
    by (simp add: tenths_store_collections numeric_amount_def contribution_doc_def cash_gift_def)
  have b: "list_all numeric_amount (collection ''expense'' tenths_store)"
    using tenths_are_doubles
    by (simp add: tenths_store_collections numeric_amount_def expense_doc_def purchase_def)
  have f: "filter (is_approved_for ''p1'') (collection ''contribution'' tenths_store) =
             collection ''contribution'' tenths_store"
    "filter (is_for ''p1'') (collection ''expense'' tenths_store) =
             collection ''expense'' tenths_store"
    by (simp_all add: tenths_store_collections is_approved_for_def is_for_def
        contribution_doc_def expense_doc_def cash_gift_def purchase_def)
  have m: "map amount_of (collection ''contribution'' tenths_store) =
             [3602879701896397 / 2 ^ 55, 3602879701896397 / 2 ^ 54]"
    "map amount_of (collection ''expense'' tenths_store) = [5404319552844595 / 2 ^ 54]"
    by (simp_all add: tenths_store_collections amount_of_def contribution_doc_def
        expense_doc_def cash_gift_def purchase_def)
  have c: "float_sum [3602879701896397 / 2 ^ 55, 3602879701896397 / 2 ^ 54] =
             FNum (5404319552844596 / 2 ^ 54)"
    "float_sum [5404319552844595 / 2 ^ 54] = FNum (5404319552844595 / 2 ^ 54)"
    by (simp_all add: float_sum_def float_eval)
  have r: "round64 (1 / 2 ^ 54) = FNum (1 / 2 ^ 54)"
    by (simp add: float_eval)
  have l: "project_ledger ''p1'' tenths_store =
       Inr [(''contributed'', PyNum (5404319552844596 / 2 ^ 54)),
            (''spent'', PyNum (5404319552844595 / 2 ^ 54)),
            (''balance'', PyNum (1 / 2 ^ 54))]"
    unfolding project_ledger_sums [OF a b] f m c using r by simp
  have e: "sum_list (map amount_of (filter (is_approved_for ''p1'') (collection ''contribution'' tenths_store)))
       = 10808639105689191 / 2 ^ 55"
    unfolding f m by simp
  have n: "ledger_field ''contributed'' (project_ledger ''p1'' tenths_store) \<noteq>
       Some (PyNum (sum_list (map amount_of
         (filter (is_approved_for ''p1'') (collection ''contribution'' tenths_store)))))"
    unfolding l e by (simp add: ledger_field_def)
  have a': "list_all numeric_amount (collection ''contribution'' huge_store)"
    by (simp add: huge_store_collections numeric_amount_def contribution_doc_def cash_gift_def
        is_double_huge)
  have b': "list_all numeric_amount (collection ''expense'' huge_store)"
    by (simp add: huge_store_collections)
  have h: "project_ledger ''p1'' huge_store = Inl (Uncaught ''ValueError'')"
    unfolding project_ledger_sums [OF a' b']
    by (simp add: huge_store_collections is_approved_for_def contribution_doc_def cash_gift_def
        amount_of_def float_sum_huge)
  have "is_server_fault (project_ledger ''p1'' huge_store)"
    unfolding h by (simp add: is_server_fault_def)
  with a b l e n a' h show ?thesis by simp
qed

end
